theory Spec2Isabelle
  imports Main "HOL-Library.Word" "HOL-Library.Sublist"
begin

unbundle bit_operations_syntax

section \<open>The lisafs request handlers (pkg/lisafs/handlers.go)\<close>

text \<open>
  A handler of the source has the type
  \<^verbatim>\<open>func(c *Connection, comm Communicator, payloadLen uint32) (uint32, error)\<close>.
  Here a handler is a function from the server state and the request payload to a
  result and the new state. The payload is \<open>None\<close> when \<^verbatim>\<open>CheckedUnmarshal\<close>
  rejects it and \<open>Some req\<close> when it decodes to \<open>req\<close>. The result is \<open>Inl e\<close> for
  the pair \<^verbatim>\<open>(0, e)\<close> and \<open>Inr r\<close> for a response \<open>r\<close> marshalled into the payload
  buffer with a nil error.
\<close>

subsection \<open>Error numbers\<close>

text \<open>The errno values the handlers return themselves; \<open>EOTHER n\<close> is any other errno
  that a backend operation may hand back.\<close>

datatype errno =
  EPERM | EIO | EBADF | EBUSY | ENOTDIR | EISDIR | EINVAL | EROFS | ENOTSOCK | EOTHER nat

subsection \<open>Strings\<close>

text \<open>Go strings are byte sequences; so are the strings of HOL.
  \<^verbatim>\<open>strings.Contains(s, substr)\<close> holds when \<open>substr\<close> occurs in \<open>s\<close>,
  \<^verbatim>\<open>strings.HasPrefix(s, p)\<close> when \<open>s\<close> starts with \<open>p\<close>, and on Unix
  \<^verbatim>\<open>filepath.IsAbs(p)\<close> is \<^verbatim>\<open>strings.HasPrefix(p, "/")\<close>.\<close>

fun strings_Contains :: "string \<Rightarrow> string \<Rightarrow> bool" where
  "strings_Contains [] substr = (substr = [])"
| "strings_Contains (c # s) substr =
     (prefix substr (c # s) \<or> strings_Contains s substr)"

definition strings_HasPrefix :: "string \<Rightarrow> string \<Rightarrow> bool" where
  "strings_HasPrefix s p = prefix p s"

definition filepath_IsAbs :: "string \<Rightarrow> bool" where
  "filepath_IsAbs p = strings_HasPrefix p ''/''"

subsection \<open>checkSafeName\<close>

text \<open>
  \<^verbatim>\<open>
  func checkSafeName(name string) error {
      if name != "" && !strings.Contains(name, "/") && name != "." && name != ".." {
          return nil
      }
      return unix.EINVAL
  }
  \<close>
  The error result is an \<open>errno option\<close>: \<open>None\<close> is nil.
\<close>

definition checkSafeName :: "string \<Rightarrow> errno option" where
  "checkSafeName n =
     (if n \<noteq> '''' \<and> \<not> strings_Contains n ''/'' \<and> n \<noteq> ''.'' \<and> n \<noteq> ''..''
      then None else Some EINVAL)"

subsection \<open>Descriptors and handles\<close>

text \<open>
  The declarations of the connection, the descriptor table and the two kinds of handle
  are in files of the package that are not part of the sources at hand (connection.go,
  fd.go, server.go). Their fields are taken from the uses in handlers.go and from the
  specification's data model. Handles live in a store addressed by \<open>cptr\<close> (control
  handles) and \<open>optr\<close> (open handles), since the code shares them by pointer; the
  descriptor table maps a descriptor ID to a tagged pointer. The backend capability
  object of a handle is identified by a number.
\<close>

type_synonym FDID = "64 word"
type_synonym cptr = nat
type_synonym optr = nat
type_synonym implref = nat
type_synonym Statx = nat
type_synonym Dirent64 = nat
type_synonym Inode = "FDID \<times> Statx"

datatype filetype = Directory | Symlink | Socket | Regular | Special

record ControlFD =
  refs :: int
  name :: string
  parent :: "cptr option"
  children :: "cptr list"
  ftype :: filetype
  impl :: implref

record OpenFD =
  orefs :: int
  controlFD :: cptr
  readable :: bool
  writable :: bool
  oimpl :: implref

datatype genericFD = CFD cptr | OFD optr

text \<open>Modelled from the spec: the kind tests of a control handle (fd.go), "variant type
  (directory/file/symlink/socket/special) is a tag on the handle for kind checks".\<close>

definition IsDir :: "ControlFD \<Rightarrow> bool" where
  "IsDir fd = (ftype fd = Directory)"

subsection \<open>The backend\<close>

text \<open>
  The backend is the abstract capability set that the handlers consume. Each operation
  takes the capability object and the arguments the handler passes, acts on the
  backend's own state \<open>'b\<close>, and returns a result or an errno. Every invocation is
  recorded in the \<open>calls\<close> of the server state, so that "the backend was (not)
  invoked" is a statement about that list. Operations that report through a callback
  (WalkStat, Getdent64) return the list of the values they hand to the callback.
\<close>

datatype call =
    C_Mount string
  | C_SetStat implref "32 word"
  | C_WalkStat implref "string list"
  | C_Open implref "32 word"
  | C_OpenCreate implref string "32 word"
  | C_Sync implref
  | C_Write implref "8 word list" nat
  | C_Mkdir implref string
  | C_Mknod implref string
  | C_Symlink implref string string
  | C_Link implref implref string
  | C_Allocate implref nat nat nat
  | C_Unlink implref string nat
  | C_RenameLocked implref implref string
  | C_Getdent64 implref "32 word" bool
  | C_SetXattr implref string string nat
  | C_RemoveXattr implref string
  | C_Close implref

record 'b backend =
  Mount :: "string \<Rightarrow> 'b \<Rightarrow> (errno + cptr \<times> Inode) \<times> 'b"
  SupportedMessages :: "nat list"
  MaxMessageSize :: nat
  SetStat :: "implref \<Rightarrow> 32 word \<Rightarrow> nat \<Rightarrow> 'b \<Rightarrow> (32 word \<times> errno option) \<times> 'b"
  WalkStat :: "implref \<Rightarrow> string list \<Rightarrow> 'b \<Rightarrow> (errno + Statx list) \<times> 'b"
  Open :: "implref \<Rightarrow> 32 word \<Rightarrow> 'b \<Rightarrow> (errno + FDID) \<times> 'b"
  OpenCreate :: "implref \<Rightarrow> nat \<Rightarrow> nat \<Rightarrow> nat \<Rightarrow> string \<Rightarrow> 32 word \<Rightarrow> 'b
                 \<Rightarrow> (errno + Inode \<times> FDID) \<times> 'b"
  Sync :: "implref \<Rightarrow> 'b \<Rightarrow> errno option \<times> 'b"
  Write :: "implref \<Rightarrow> 8 word list \<Rightarrow> nat \<Rightarrow> 'b \<Rightarrow> (errno + nat) \<times> 'b"
  Mkdir :: "implref \<Rightarrow> nat \<Rightarrow> nat \<Rightarrow> nat \<Rightarrow> string \<Rightarrow> 'b \<Rightarrow> (errno + Inode) \<times> 'b"
  Mknod :: "implref \<Rightarrow> nat \<Rightarrow> nat \<Rightarrow> nat \<Rightarrow> string \<Rightarrow> nat \<Rightarrow> nat \<Rightarrow> 'b
            \<Rightarrow> (errno + Inode) \<times> 'b"
  Symlink_op :: "implref \<Rightarrow> string \<Rightarrow> string \<Rightarrow> nat \<Rightarrow> nat \<Rightarrow> 'b \<Rightarrow> (errno + Inode) \<times> 'b"
  Link :: "implref \<Rightarrow> implref \<Rightarrow> string \<Rightarrow> 'b \<Rightarrow> (errno + Inode) \<times> 'b"
  Allocate :: "implref \<Rightarrow> nat \<Rightarrow> nat \<Rightarrow> nat \<Rightarrow> 'b \<Rightarrow> errno option \<times> 'b"
  Unlink :: "implref \<Rightarrow> string \<Rightarrow> nat \<Rightarrow> 'b \<Rightarrow> errno option \<times> 'b"
  RenameLocked :: "implref \<Rightarrow> implref \<Rightarrow> string \<Rightarrow> 'b
                   \<Rightarrow> (errno + (implref \<Rightarrow> 'b \<Rightarrow> 'b) option \<times> ('b \<Rightarrow> 'b) option) \<times> 'b"
  Getdent64 :: "implref \<Rightarrow> 32 word \<Rightarrow> bool \<Rightarrow> 'b \<Rightarrow> (errno + Dirent64 list) \<times> 'b"
  SetXattr :: "implref \<Rightarrow> string \<Rightarrow> string \<Rightarrow> nat \<Rightarrow> 'b \<Rightarrow> errno option \<times> 'b"
  RemoveXattr :: "implref \<Rightarrow> string \<Rightarrow> 'b \<Rightarrow> errno option \<times> 'b"
  Close :: "implref \<Rightarrow> 'b \<Rightarrow> 'b"

subsection \<open>The server state\<close>

text \<open>One connection and the server it belongs to: the connection's \<open>readonly\<close> and
  \<open>mounted\<close> flags and descriptor table \<open>fds\<close>, the store of handles, the server's
  mount points, the backend's state, and the record of backend invocations.\<close>

record 'b state =
  readonly :: bool
  mounted :: bool
  fds :: "FDID \<Rightarrow> genericFD option"
  cfds :: "cptr \<Rightarrow> ControlFD"
  ofds :: "optr \<Rightarrow> OpenFD"
  mountPoints :: "cptr list"
  backend_state :: 'b
  calls :: "call list"

definition invoke :: "call \<Rightarrow> ('b \<Rightarrow> 'r \<times> 'b) \<Rightarrow> 'b state \<Rightarrow> 'r \<times> 'b state" where
  "invoke c f s =
     (case f (backend_state s) of
        (r, b) \<Rightarrow> (r, s\<lparr>backend_state := b, calls := calls s @ [c]\<rparr>))"

subsection \<open>The descriptor table\<close>

text \<open>
  Modelled from the spec: \<^verbatim>\<open>LookupControlFD\<close>, \<^verbatim>\<open>LookupOpenFD\<close> and \<^verbatim>\<open>DecRef\<close>
  (connection.go and fd.go). "LookupControlFD(id): fails with bad-FD if absent or if the
  ID refers to an open handle. Increments refcount. LookupOpenFD(id): symmetric for open
  handles. DecRef(handle): releases a lookup reference." and "DecRef to zero unregisters
  and releases backend resources", "on destruction it is removed from the parent's
  children and its backend capability is closed".
\<close>

definition LookupControlFD :: "'b state \<Rightarrow> FDID \<Rightarrow> errno + cptr \<times> 'b state" where
  "LookupControlFD s fdid =
     (case fds s fdid of
        Some (CFD p) \<Rightarrow>
          Inr (p, s\<lparr>cfds := (cfds s)(p := (cfds s p)\<lparr>refs := refs (cfds s p) + 1\<rparr>)\<rparr>)
      | _ \<Rightarrow> Inl EBADF)"

definition LookupOpenFD :: "'b state \<Rightarrow> FDID \<Rightarrow> errno + optr \<times> 'b state" where
  "LookupOpenFD s fdid =
     (case fds s fdid of
        Some (OFD p) \<Rightarrow>
          Inr (p, s\<lparr>ofds := (ofds s)(p := (ofds s p)\<lparr>orefs := orefs (ofds s p) + 1\<rparr>)\<rparr>)
      | _ \<Rightarrow> Inl EBADF)"

definition unregister :: "genericFD \<Rightarrow> 'b state \<Rightarrow> 'b state" where
  "unregister h s = s\<lparr>fds := (\<lambda>i. if fds s i = Some h then None else fds s i)\<rparr>"

definition destroyControlFD :: "'b backend \<Rightarrow> cptr \<Rightarrow> 'b state \<Rightarrow> 'b state" where
  "destroyControlFD B p s =
     (let s1 = (case parent (cfds s p) of
                  None \<Rightarrow> s
                | Some q \<Rightarrow>
                    s\<lparr>cfds := (cfds s)
                       (q := (cfds s q)\<lparr>children := removeAll p (children (cfds s q))\<rparr>)\<rparr>)
      in snd (invoke (C_Close (impl (cfds s p)))
                (\<lambda>b. ((), Close B (impl (cfds s p)) b)) (unregister (CFD p) s1)))"

definition destroyOpenFD :: "'b backend \<Rightarrow> optr \<Rightarrow> 'b state \<Rightarrow> 'b state" where
  "destroyOpenFD B p s =
     snd (invoke (C_Close (oimpl (ofds s p)))
            (\<lambda>b. ((), Close B (oimpl (ofds s p)) b)) (unregister (OFD p) s))"

definition DecRefControl :: "'b backend \<Rightarrow> cptr \<Rightarrow> 'b state \<Rightarrow> 'b state" where
  "DecRefControl B p s =
     (let s1 = s\<lparr>cfds := (cfds s)(p := (cfds s p)\<lparr>refs := refs (cfds s p) - 1\<rparr>)\<rparr>
      in if refs (cfds s1 p) = 0 then destroyControlFD B p s1 else s1)"

definition DecRefOpen :: "'b backend \<Rightarrow> optr \<Rightarrow> 'b state \<Rightarrow> 'b state" where
  "DecRefOpen B p s =
     (let s1 = s\<lparr>ofds := (ofds s)(p := (ofds s p)\<lparr>orefs := orefs (ofds s p) - 1\<rparr>)\<rparr>
      in if orefs (ofds s1 p) = 0 then destroyOpenFD B p s1 else s1)"

text \<open>\<^verbatim>\<open>defer fd.DecRef(nil)\<close>: the release runs when the rest of the handler has
  produced its result, on every path.\<close>

definition deferDecRefControl ::
  "'b backend \<Rightarrow> cptr \<Rightarrow> 'r \<times> 'b state \<Rightarrow> 'r \<times> 'b state" where
  "deferDecRefControl B p rs = (case rs of (r, s) \<Rightarrow> (r, DecRefControl B p s))"

definition deferDecRefOpen ::
  "'b backend \<Rightarrow> optr \<Rightarrow> 'r \<times> 'b state \<Rightarrow> 'r \<times> 'b state" where
  "deferDecRefOpen B p rs = (case rs of (r, s) \<Rightarrow> (r, DecRefOpen B p s))"

subsection \<open>Responses and constants\<close>

text \<open>The response that a handler marshals into the payload buffer, by message.
  \<open>R_None\<close> is the empty response of the handlers that return \<^verbatim>\<open>(0, nil)\<close>.\<close>

datatype resp =
    R_None
  | R_Mount Inode "nat list" nat
  | R_SetStat "32 word" "errno option"
  | R_WalkStat "Statx list"
  | R_OpenAt FDID
  | R_OpenCreateAt Inode FDID
  | R_PWrite nat
  | R_MkdirAt Inode
  | R_MknodAt Inode
  | R_SymlinkAt Inode
  | R_LinkAt Inode
  | R_Getdents64 "Dirent64 list"

text \<open>The values of golang.org/x/sys/unix on Linux.\<close>

definition O_RDONLY :: "32 word" where "O_RDONLY = 0"
definition O_ACCMODE :: "32 word" where "O_ACCMODE = 0x3"
definition O_TRUNC :: "32 word" where "O_TRUNC = 0x200"
definition STATX_MODE :: "32 word" where "STATX_MODE = 0x2"
definition STATX_UID :: "32 word" where "STATX_UID = 0x8"
definition STATX_GID :: "32 word" where "STATX_GID = 0x10"
definition STATX_ATIME :: "32 word" where "STATX_ATIME = 0x20"
definition STATX_MTIME :: "32 word" where "STATX_MTIME = 0x40"
definition STATX_SIZE :: "32 word" where "STATX_SIZE = 0x200"
definition SizeOfStatx :: nat where "SizeOfStatx = 256"
definition MaxUint32 :: nat where "MaxUint32 = 4294967295"

definition allowedOpenFlags :: "32 word" where
  "allowedOpenFlags = O_ACCMODE OR O_TRUNC"

definition setStatSupportedMask :: "32 word" where
  "setStatSupportedMask =
     STATX_MODE OR STATX_UID OR STATX_GID OR STATX_SIZE OR STATX_ATIME OR STATX_MTIME"

subsection \<open>MountHandler\<close>

text \<open>\<^verbatim>\<open>path.Clean\<close> of the Go library is the parameter \<open>clean\<close>.
  Modelled from the spec: \<^verbatim>\<open>addMountPoint\<close> (server.go), the server's "set of
  mount-point root descriptors", "append-only during normal operation".\<close>

definition addMountPoint :: "cptr \<Rightarrow> 'b state \<Rightarrow> 'b state" where
  "addMountPoint root s = s\<lparr>mountPoints := mountPoints s @ [root]\<rparr>"

definition MountHandler ::
  "(string \<Rightarrow> string) \<Rightarrow> 'b backend \<Rightarrow> 'b state \<Rightarrow> string option
     \<Rightarrow> (errno + resp) \<times> 'b state" where
  "MountHandler clean B s payload =
     (case payload of
        None \<Rightarrow> (Inl EIO, s)
      | Some MountPath \<Rightarrow>
          (let mountPath = clean MountPath in
           if \<not> filepath_IsAbs mountPath then (Inl EINVAL, s)
           else if mounted s then (Inl EBUSY, s)
           else
             (case invoke (C_Mount mountPath) (Mount B mountPath) s of
                (Inl err, s1) \<Rightarrow> (Inl err, s1)
              | (Inr (rootFD, rootIno), s1) \<Rightarrow>
                  (Inr (R_Mount rootIno (SupportedMessages B) (MaxMessageSize B)),
                   (addMountPoint rootFD s1)\<lparr>mounted := True\<rparr>))))"

subsection \<open>SetStatHandler\<close>

definition SetStatHandler ::
  "'b backend \<Rightarrow> 'b state \<Rightarrow> (FDID \<times> 32 word \<times> nat) option
     \<Rightarrow> (errno + resp) \<times> 'b state" where
  "SetStatHandler B s payload =
     (if readonly s then (Inl EROFS, s)
      else
        (case payload of
           None \<Rightarrow> (Inl EIO, s)
         | Some (FD, Mask, vals) \<Rightarrow>
             (case LookupControlFD s FD of
                Inl err \<Rightarrow> (Inl err, s)
              | Inr (fd, s1) \<Rightarrow>
                  deferDecRefControl B fd
                    (if Mask AND NOT setStatSupportedMask \<noteq> 0 then (Inl EPERM, s1)
                     else
                       (case invoke (C_SetStat (impl (cfds s1 fd)) Mask)
                               (SetStat B (impl (cfds s1 fd)) Mask vals) s1 of
                          ((failureMask, failureErr), s2) \<Rightarrow>
                            (Inr (R_SetStat failureMask failureErr), s2))))))"

subsection \<open>WalkStatHandler\<close>

text \<open>The loop over the path components: the first component may be empty, every other
  one must be a safe name.\<close>

fun checkWalkStatPath :: "nat \<Rightarrow> string list \<Rightarrow> errno option" where
  "checkWalkStatPath i [] = None"
| "checkWalkStatPath i (n # ns) =
     (if i = 0 \<and> length n = 0 then checkWalkStatPath (Suc i) ns
      else
        (case checkSafeName n of
           Some err \<Rightarrow> Some err
         | None \<Rightarrow> checkWalkStatPath (Suc i) ns))"

definition WalkStatHandler ::
  "'b backend \<Rightarrow> 'b state \<Rightarrow> (FDID \<times> string list) option
     \<Rightarrow> (errno + resp) \<times> 'b state" where
  "WalkStatHandler B s payload =
     (case payload of
        None \<Rightarrow> (Inl EIO, s)
      | Some (DirFD, Path) \<Rightarrow>
          (case LookupControlFD s DirFD of
             Inl err \<Rightarrow> (Inl err, s)
           | Inr (fd, s1) \<Rightarrow>
               deferDecRefControl B fd
                 (if \<not> IsDir (cfds s1 fd) \<and>
                     (length Path > 1 \<or> (length Path = 1 \<and> length (Path ! 0) > 0))
                  then (Inl ENOTDIR, s1)
                  else
                    (case checkWalkStatPath 0 Path of
                       Some err \<Rightarrow> (Inl err, s1)
                     | None \<Rightarrow>
                         if 4 + length Path * SizeOfStatx > MaxUint32 then (Inl EIO, s1)
                         else
                           (case invoke (C_WalkStat (impl (cfds s1 fd)) Path)
                                   (WalkStat B (impl (cfds s1 fd)) Path) s1 of
                              (Inl err, s2) \<Rightarrow> (Inl err, s2)
                            | (Inr stats, s2) \<Rightarrow> (Inr (R_WalkStat stats), s2))))))"

subsection \<open>OpenAtHandler\<close>

definition OpenAtHandler ::
  "'b backend \<Rightarrow> 'b state \<Rightarrow> (FDID \<times> 32 word) option
     \<Rightarrow> (errno + resp) \<times> 'b state" where
  "OpenAtHandler B s payload =
     (case payload of
        None \<Rightarrow> (Inl EIO, s)
      | Some (FD, reqFlags) \<Rightarrow>
          (let Flags = (if reqFlags AND allowedOpenFlags \<noteq> reqFlags
                        then reqFlags AND allowedOpenFlags else reqFlags);
               accessMode = Flags AND O_ACCMODE;
               trunc = (Flags AND O_TRUNC \<noteq> 0)
           in
           if readonly s \<and> (accessMode \<noteq> O_RDONLY \<or> trunc) then (Inl EROFS, s)
           else
             (case LookupControlFD s FD of
                Inl err \<Rightarrow> (Inl err, s)
              | Inr (fd, s1) \<Rightarrow>
                  deferDecRefControl B fd
                    (if IsDir (cfds s1 fd) \<and> (accessMode \<noteq> O_RDONLY \<or> trunc)
                     then (Inl EISDIR, s1)
                     else
                       (case invoke (C_Open (impl (cfds s1 fd)) Flags)
                               (Open B (impl (cfds s1 fd)) Flags) s1 of
                          (Inl err, s2) \<Rightarrow> (Inl err, s2)
                        | (Inr openFD, s2) \<Rightarrow> (Inr (R_OpenAt openFD), s2))))))"

subsection \<open>OpenCreateAtHandler\<close>

definition OpenCreateAtHandler ::
  "'b backend \<Rightarrow> 'b state \<Rightarrow> (FDID \<times> nat \<times> nat \<times> nat \<times> string \<times> 32 word) option
     \<Rightarrow> (errno + resp) \<times> 'b state" where
  "OpenCreateAtHandler B s payload =
     (if readonly s then (Inl EROFS, s)
      else
        (case payload of
           None \<Rightarrow> (Inl EIO, s)
         | Some (DirFD, Mode, UID, GID, Name, reqFlags) \<Rightarrow>
             (let Flags = (if reqFlags AND allowedOpenFlags \<noteq> reqFlags
                           then reqFlags AND allowedOpenFlags else reqFlags)
              in
              case checkSafeName Name of
                Some err \<Rightarrow> (Inl err, s)
              | None \<Rightarrow>
                  (case LookupControlFD s DirFD of
                     Inl err \<Rightarrow> (Inl err, s)
                   | Inr (fd, s1) \<Rightarrow>
                       deferDecRefControl B fd
                         (if \<not> IsDir (cfds s1 fd) then (Inl ENOTDIR, s1)
                          else
                            (case invoke (C_OpenCreate (impl (cfds s1 fd)) Name Flags)
                                    (OpenCreate B (impl (cfds s1 fd)) Mode UID GID Name Flags)
                                    s1 of
                               (Inl err, s2) \<Rightarrow> (Inl err, s2)
                             | (Inr (child, newFD), s2) \<Rightarrow>
                                 (Inr (R_OpenCreateAt child newFD), s2)))))))"

subsection \<open>FSyncHandler and fsyncFD\<close>

definition fsyncFD :: "'b backend \<Rightarrow> 'b state \<Rightarrow> FDID \<Rightarrow> errno option \<times> 'b state" where
  "fsyncFD B s fdid =
     (case LookupOpenFD s fdid of
        Inl err \<Rightarrow> (Some err, s)
      | Inr (fd, s1) \<Rightarrow>
          invoke (C_Sync (oimpl (ofds s1 fd))) (Sync B (oimpl (ofds s1 fd))) s1)"

text \<open>The loop of FSyncHandler over \<^verbatim>\<open>req.FDs\<close>, with the variable \<^verbatim>\<open>retErr\<close>.\<close>

fun fsyncLoop ::
  "'b backend \<Rightarrow> errno option \<Rightarrow> FDID list \<Rightarrow> 'b state \<Rightarrow> errno option \<times> 'b state" where
  "fsyncLoop B retErr [] s = (retErr, s)"
| "fsyncLoop B retErr (fdid # rest) s =
     (case fsyncFD B s fdid of
        (err, s1) \<Rightarrow>
          fsyncLoop B (if err \<noteq> None \<and> retErr = None then err else retErr) rest s1)"

definition FSyncHandler ::
  "'b backend \<Rightarrow> 'b state \<Rightarrow> FDID list option \<Rightarrow> (errno + resp) \<times> 'b state" where
  "FSyncHandler B s payload =
     (case payload of
        None \<Rightarrow> (Inl EIO, s)
      | Some FDs \<Rightarrow>
          (case fsyncLoop B None FDs s of
             (None, s1) \<Rightarrow> (Inr R_None, s1)
           | (Some retErr, s1) \<Rightarrow> (Inl retErr, s1)))"

subsection \<open>PWriteHandler\<close>

definition PWriteHandler ::
  "'b backend \<Rightarrow> 'b state \<Rightarrow> (FDID \<times> nat \<times> 8 word list) option
     \<Rightarrow> (errno + resp) \<times> 'b state" where
  "PWriteHandler B s payload =
     (if readonly s then (Inl EROFS, s)
      else
        (case payload of
           None \<Rightarrow> (Inl EIO, s)
         | Some (FD, Offset, Buf) \<Rightarrow>
             (case LookupOpenFD s FD of
                Inl err \<Rightarrow> (Inl err, s)
              | Inr (fd, s1) \<Rightarrow>
                  if \<not> writable (ofds s1 fd) then (Inl EBADF, s1)
                  else
                    (case invoke (C_Write (oimpl (ofds s1 fd)) Buf Offset)
                            (Write B (oimpl (ofds s1 fd)) Buf Offset) s1 of
                       (Inl err, s2) \<Rightarrow> (Inl err, s2)
                     | (Inr count, s2) \<Rightarrow> (Inr (R_PWrite count), s2)))))"

subsection \<open>MkdirAtHandler, MknodAtHandler, SymlinkAtHandler, LinkAtHandler\<close>

definition MkdirAtHandler ::
  "'b backend \<Rightarrow> 'b state \<Rightarrow> (FDID \<times> nat \<times> nat \<times> nat \<times> string) option
     \<Rightarrow> (errno + resp) \<times> 'b state" where
  "MkdirAtHandler B s payload =
     (if readonly s then (Inl EROFS, s)
      else
        (case payload of
           None \<Rightarrow> (Inl EIO, s)
         | Some (DirFD, Mode, UID, GID, Name) \<Rightarrow>
             (case checkSafeName Name of
                Some err \<Rightarrow> (Inl err, s)
              | None \<Rightarrow>
                  (case LookupControlFD s DirFD of
                     Inl err \<Rightarrow> (Inl err, s)
                   | Inr (fd, s1) \<Rightarrow>
                       deferDecRefControl B fd
                         (if \<not> IsDir (cfds s1 fd) then (Inl ENOTDIR, s1)
                          else
                            (case invoke (C_Mkdir (impl (cfds s1 fd)) Name)
                                    (Mkdir B (impl (cfds s1 fd)) Mode UID GID Name) s1 of
                               (Inl err, s2) \<Rightarrow> (Inl err, s2)
                             | (Inr childDir, s2) \<Rightarrow> (Inr (R_MkdirAt childDir), s2)))))))"

definition MknodAtHandler ::
  "'b backend \<Rightarrow> 'b state \<Rightarrow> (FDID \<times> nat \<times> nat \<times> nat \<times> string \<times> nat \<times> nat) option
     \<Rightarrow> (errno + resp) \<times> 'b state" where
  "MknodAtHandler B s payload =
     (if readonly s then (Inl EROFS, s)
      else
        (case payload of
           None \<Rightarrow> (Inl EIO, s)
         | Some (DirFD, Mode, UID, GID, Name, Minor, Major) \<Rightarrow>
             (case checkSafeName Name of
                Some err \<Rightarrow> (Inl err, s)
              | None \<Rightarrow>
                  (case LookupControlFD s DirFD of
                     Inl err \<Rightarrow> (Inl err, s)
                   | Inr (fd, s1) \<Rightarrow>
                       deferDecRefControl B fd
                         (if \<not> IsDir (cfds s1 fd) then (Inl ENOTDIR, s1)
                          else
                            (case invoke (C_Mknod (impl (cfds s1 fd)) Name)
                                    (Mknod B (impl (cfds s1 fd)) Mode UID GID Name Minor Major)
                                    s1 of
                               (Inl err, s2) \<Rightarrow> (Inl err, s2)
                             | (Inr child, s2) \<Rightarrow> (Inr (R_MknodAt child), s2)))))))"

definition SymlinkAtHandler ::
  "'b backend \<Rightarrow> 'b state \<Rightarrow> (FDID \<times> string \<times> string \<times> nat \<times> nat) option
     \<Rightarrow> (errno + resp) \<times> 'b state" where
  "SymlinkAtHandler B s payload =
     (if readonly s then (Inl EROFS, s)
      else
        (case payload of
           None \<Rightarrow> (Inl EIO, s)
         | Some (DirFD, Name, Target, UID, GID) \<Rightarrow>
             (case checkSafeName Name of
                Some err \<Rightarrow> (Inl err, s)
              | None \<Rightarrow>
                  (case LookupControlFD s DirFD of
                     Inl err \<Rightarrow> (Inl err, s)
                   | Inr (fd, s1) \<Rightarrow>
                       deferDecRefControl B fd
                         (if \<not> IsDir (cfds s1 fd) then (Inl ENOTDIR, s1)
                          else
                            (case invoke (C_Symlink (impl (cfds s1 fd)) Name Target)
                                    (Symlink_op B (impl (cfds s1 fd)) Name Target UID GID)
                                    s1 of
                               (Inl err, s2) \<Rightarrow> (Inl err, s2)
                             | (Inr symlink, s2) \<Rightarrow> (Inr (R_SymlinkAt symlink), s2)))))))"

definition LinkAtHandler ::
  "'b backend \<Rightarrow> 'b state \<Rightarrow> (FDID \<times> FDID \<times> string) option
     \<Rightarrow> (errno + resp) \<times> 'b state" where
  "LinkAtHandler B s payload =
     (if readonly s then (Inl EROFS, s)
      else
        (case payload of
           None \<Rightarrow> (Inl EIO, s)
         | Some (DirFD, Target, Name) \<Rightarrow>
             (case checkSafeName Name of
                Some err \<Rightarrow> (Inl err, s)
              | None \<Rightarrow>
                  (case LookupControlFD s DirFD of
                     Inl err \<Rightarrow> (Inl err, s)
                   | Inr (fd, s1) \<Rightarrow>
                       deferDecRefControl B fd
                         (if \<not> IsDir (cfds s1 fd) then (Inl ENOTDIR, s1)
                          else
                            (case LookupControlFD s1 Target of
                               Inl err \<Rightarrow> (Inl err, s1)
                             | Inr (targetFD, s2) \<Rightarrow>
                                 (case invoke
                                         (C_Link (impl (cfds s2 targetFD))
                                            (impl (cfds s2 fd)) Name)
                                         (Link B (impl (cfds s2 targetFD))
                                            (impl (cfds s2 fd)) Name) s2 of
                                    (Inl err, s3) \<Rightarrow> (Inl err, s3)
                                  | (Inr link, s3) \<Rightarrow> (Inr (R_LinkAt link), s3))))))))"

subsection \<open>FAllocateHandler, UnlinkAtHandler, FSetXattrHandler, FRemoveXattrHandler\<close>

text \<open>\<^verbatim>\<open>return 0, err\<close> with the error of a backend operation.\<close>

definition ret0 :: "errno option \<times> 'b state \<Rightarrow> (errno + resp) \<times> 'b state" where
  "ret0 rs = (case rs of (None, s) \<Rightarrow> (Inr R_None, s) | (Some err, s) \<Rightarrow> (Inl err, s))"

definition FAllocateHandler ::
  "'b backend \<Rightarrow> 'b state \<Rightarrow> (FDID \<times> nat \<times> nat \<times> nat) option
     \<Rightarrow> (errno + resp) \<times> 'b state" where
  "FAllocateHandler B s payload =
     (if readonly s then (Inl EROFS, s)
      else
        (case payload of
           None \<Rightarrow> (Inl EIO, s)
         | Some (FD, Mode, Offset, Length) \<Rightarrow>
             (case LookupOpenFD s FD of
                Inl err \<Rightarrow> (Inl err, s)
              | Inr (fd, s1) \<Rightarrow>
                  deferDecRefOpen B fd
                    (if \<not> writable (ofds s1 fd) then (Inl EBADF, s1)
                     else
                       ret0 (invoke (C_Allocate (oimpl (ofds s1 fd)) Mode Offset Length)
                               (Allocate B (oimpl (ofds s1 fd)) Mode Offset Length) s1)))))"

definition UnlinkAtHandler ::
  "'b backend \<Rightarrow> 'b state \<Rightarrow> (FDID \<times> string \<times> nat) option
     \<Rightarrow> (errno + resp) \<times> 'b state" where
  "UnlinkAtHandler B s payload =
     (if readonly s then (Inl EROFS, s)
      else
        (case payload of
           None \<Rightarrow> (Inl EIO, s)
         | Some (DirFD, Name, Flags) \<Rightarrow>
             (case checkSafeName Name of
                Some err \<Rightarrow> (Inl err, s)
              | None \<Rightarrow>
                  (case LookupControlFD s DirFD of
                     Inl err \<Rightarrow> (Inl err, s)
                   | Inr (fd, s1) \<Rightarrow>
                       deferDecRefControl B fd
                         (if \<not> IsDir (cfds s1 fd) then (Inl ENOTDIR, s1)
                          else
                            ret0 (invoke (C_Unlink (impl (cfds s1 fd)) Name Flags)
                                    (Unlink B (impl (cfds s1 fd)) Name Flags) s1))))))"

definition FSetXattrHandler ::
  "'b backend \<Rightarrow> 'b state \<Rightarrow> (FDID \<times> string \<times> string \<times> nat) option
     \<Rightarrow> (errno + resp) \<times> 'b state" where
  "FSetXattrHandler B s payload =
     (if readonly s then (Inl EROFS, s)
      else
        (case payload of
           None \<Rightarrow> (Inl EIO, s)
         | Some (FD, Name, Value, Flags) \<Rightarrow>
             (case LookupControlFD s FD of
                Inl err \<Rightarrow> (Inl err, s)
              | Inr (fd, s1) \<Rightarrow>
                  deferDecRefControl B fd
                    (ret0 (invoke (C_SetXattr (impl (cfds s1 fd)) Name Value Flags)
                             (SetXattr B (impl (cfds s1 fd)) Name Value Flags) s1)))))"

definition FRemoveXattrHandler ::
  "'b backend \<Rightarrow> 'b state \<Rightarrow> (FDID \<times> string) option
     \<Rightarrow> (errno + resp) \<times> 'b state" where
  "FRemoveXattrHandler B s payload =
     (if readonly s then (Inl EROFS, s)
      else
        (case payload of
           None \<Rightarrow> (Inl EIO, s)
         | Some (FD, Name) \<Rightarrow>
             (case LookupControlFD s FD of
                Inl err \<Rightarrow> (Inl err, s)
              | Inr (fd, s1) \<Rightarrow>
                  deferDecRefControl B fd
                    (ret0 (invoke (C_RemoveXattr (impl (cfds s1 fd)) Name)
                             (RemoveXattr B (impl (cfds s1 fd)) Name) s1)))))"

subsection \<open>Getdents64Handler\<close>

text \<open>\<^verbatim>\<open>req.Count\<close> is a signed 32-bit integer: the test \<^verbatim>\<open>req.Count < 0\<close> is the
  signed comparison, the negation wraps around, and \<^verbatim>\<open>uint32(req.Count)\<close> keeps the
  bits.\<close>

definition Getdents64Handler ::
  "'b backend \<Rightarrow> 'b state \<Rightarrow> (FDID \<times> 32 word) option
     \<Rightarrow> (errno + resp) \<times> 'b state" where
  "Getdents64Handler B s payload =
     (case payload of
        None \<Rightarrow> (Inl EIO, s)
      | Some (DirFD, reqCount) \<Rightarrow>
          (case LookupOpenFD s DirFD of
             Inl err \<Rightarrow> (Inl err, s)
           | Inr (fd, s1) \<Rightarrow>
               deferDecRefOpen B fd
                 (if \<not> IsDir (cfds s1 (controlFD (ofds s1 fd))) then (Inl ENOTDIR, s1)
                  else
                    (let seek0 = (reqCount <s 0);
                         Count = (if reqCount <s 0 then - reqCount else reqCount)
                     in
                     case invoke (C_Getdent64 (oimpl (ofds s1 fd)) Count seek0)
                            (Getdent64 B (oimpl (ofds s1 fd)) Count seek0) s1 of
                       (Inl err, s2) \<Rightarrow> (Inl err, s2)
                     | (Inr dirents, s2) \<Rightarrow> (Inr (R_Getdents64 dirents), s2)))))"

subsection \<open>RenameAtHandler and renameRecursiveLocked\<close>

text \<open>
  Modelled from the spec: \<^verbatim>\<open>FilePathLocked\<close> (fd.go). "A handle's current absolute
  path is computed by walking parent pointers", and the path of a handle with a parent
  is \<^verbatim>\<open>parent.path + "/" + name\<close>; the path of a mount root is its name. The walk
  follows the \<open>parent\<close> fields of the store and does not return on a cyclic chain of
  parents, hence the option: \<open>None\<close> is a walk that never ends.
\<close>

partial_function (option) parentWalk ::
  "(cptr \<Rightarrow> string) \<Rightarrow> (cptr \<Rightarrow> cptr option) \<Rightarrow> cptr \<Rightarrow> string option" where
  "parentWalk nm par p =
     (case par p of
        None \<Rightarrow> Some (nm p)
      | Some q \<Rightarrow>
          Option.bind (parentWalk nm par q) (\<lambda>pp. Some (pp @ ''/'' @ nm p)))"

definition FilePathLocked :: "'b state \<Rightarrow> cptr \<Rightarrow> string option" where
  "FilePathLocked s p =
     parentWalk (\<lambda>q. name (cfds s q)) (\<lambda>q. parent (cfds s q)) p"

text \<open>
  Modelled from the spec: \<^verbatim>\<open>fspath.Parse(p).Begin\<close> (pkg/fspath), the iterator over
  "the remaining components of old_path": the non-empty pieces between slashes.
\<close>

fun splitComponents :: "string \<Rightarrow> string \<Rightarrow> string list" where
  "splitComponents cur [] = (if cur = [] then [] else [cur])"
| "splitComponents cur (c # cs) =
     (if c = CHR ''/''
      then (if cur = [] then splitComponents [] cs else cur # splitComponents [] cs)
      else splitComponents (cur @ [c]) cs)"

definition fspath_Parse :: "string \<Rightarrow> string list" where
  "fspath_Parse p = splitComponents [] p"

text \<open>
  Modelled from the spec: \<^verbatim>\<open>clearParentLocked\<close> and \<^verbatim>\<open>setParentLocked\<close> (fd.go),
  which "re-link it under new_parent": the handle leaves the children of its parent
  and is appended to the children of the new one.
\<close>

definition clearParentLocked :: "cptr \<Rightarrow> 'b state \<Rightarrow> 'b state" where
  "clearParentLocked p s =
     (case parent (cfds s p) of
        None \<Rightarrow> s
      | Some q \<Rightarrow>
          (let h1 = (cfds s)(q := (cfds s q)\<lparr>children := removeAll p (children (cfds s q))\<rparr>)
           in s\<lparr>cfds := h1(p := (h1 p)\<lparr>parent := None\<rparr>)\<rparr>))"

definition setParentLocked :: "cptr \<Rightarrow> cptr \<Rightarrow> 'b state \<Rightarrow> 'b state" where
  "setParentLocked p newDir s =
     (let h1 = (cfds s)(p := (cfds s p)\<lparr>parent := Some newDir\<rparr>)
      in s\<lparr>cfds := h1(newDir := (h1 newDir)\<lparr>children := children (h1 newDir) @ [p]\<rparr>)\<rparr>)"

text \<open>
  \<^verbatim>\<open>renameRecursiveLocked\<close>: the iterator \<^verbatim>\<open>pit\<close> is the list of the components
  left; \<^verbatim>\<open>pit.Ok()\<close> fails on the empty list. The loop visits the children that the
  handle has when the loop starts.
\<close>

fun renameRecursiveLocked ::
  "cptr \<Rightarrow> string \<Rightarrow> (implref \<Rightarrow> 'b \<Rightarrow> 'b) option \<Rightarrow> string list \<Rightarrow> cptr
     \<Rightarrow> 'b state \<Rightarrow> 'b state" where
  "renameRecursiveLocked newDir newName updateControlFD [] fd s =
     (let s1 = clearParentLocked fd s;
          s2 = setParentLocked fd newDir s1;
          s3 = s2\<lparr>cfds := (cfds s2)(fd := (cfds s2 fd)\<lparr>name := newName\<rparr>)\<rparr>
      in case updateControlFD of
           None \<Rightarrow> s3
         | Some upd \<Rightarrow> s3\<lparr>backend_state := upd (impl (cfds s3 fd)) (backend_state s3)\<rparr>)"
| "renameRecursiveLocked newDir newName updateControlFD (cur # next) fd s =
     fold (\<lambda>child s'.
             if name (cfds s' child) = cur
             then renameRecursiveLocked newDir newName updateControlFD next child s'
             else s')
          (children (cfds s fd)) s"

text \<open>The body of the function passed to \<^verbatim>\<open>forEachMountPoint\<close>, for one root.\<close>

definition renameUnderRoot ::
  "cptr \<Rightarrow> string \<Rightarrow> (implref \<Rightarrow> 'b \<Rightarrow> 'b) option \<Rightarrow> string \<Rightarrow> cptr
     \<Rightarrow> 'b state \<Rightarrow> 'b state" where
  "renameUnderRoot newDir newName updateControlFD oldPath root s =
     (if \<not> strings_HasPrefix oldPath (name (cfds s root)) then s
      else renameRecursiveLocked newDir newName updateControlFD
             (fspath_Parse (drop (length (name (cfds s root))) oldPath)) root s)"

text \<open>
  The handler. The rename mutex is held from the lookups to the return; in this
  sequential model it has no effect. The deferred releases run in reverse order:
  \<open>newDir\<close> first, then \<open>renamed\<close>. The result is \<open>None\<close> when a path walk does not
  return. As in the source, the path of \<open>newDir\<close> is computed only when the names are
  equal.
\<close>

definition RenameAtHandler ::
  "'b backend \<Rightarrow> 'b state \<Rightarrow> (FDID \<times> FDID \<times> string) option
     \<Rightarrow> ((errno + resp) \<times> 'b state) option" where
  "RenameAtHandler B s payload =
     (if readonly s then Some (Inl EROFS, s)
      else
        (case payload of
           None \<Rightarrow> Some (Inl EIO, s)
         | Some (Renamed, NewDir, newName) \<Rightarrow>
             (case checkSafeName newName of
                Some err \<Rightarrow> Some (Inl err, s)
              | None \<Rightarrow>
        (case LookupControlFD s Renamed of
           Inl err \<Rightarrow> Some (Inl err, s)
         | Inr (renamed, s1) \<Rightarrow>
        map_option (deferDecRefControl B renamed)
        (case LookupControlFD s1 NewDir of
           Inl err \<Rightarrow> Some (Inl err, s1)
         | Inr (newDir, s2) \<Rightarrow>
        map_option (deferDecRefControl B newDir)
        (if \<not> IsDir (cfds s2 newDir) then Some (Inl ENOTDIR, s2)
         else
           (case parent (cfds s2 renamed) of
              None \<Rightarrow> Some (Inl EBUSY, s2)
            | Some oldParent \<Rightarrow>
           (case FilePathLocked s2 oldParent of
              None \<Rightarrow> None
            | Some oldParentPath \<Rightarrow>
           (let oldPath = oldParentPath @ ''/'' @ name (cfds s2 renamed) in
            case (if newName = name (cfds s2 renamed)
                  then map_option (\<lambda>newDirPath. oldParentPath = newDirPath)
                         (FilePathLocked s2 newDir)
                  else Some False) of
              None \<Rightarrow> None
            | Some True \<Rightarrow> Some (Inr R_None, s2)
            | Some False \<Rightarrow>
                (case invoke
                        (C_RenameLocked (impl (cfds s2 renamed)) (impl (cfds s2 newDir)) newName)
                        (RenameLocked B (impl (cfds s2 renamed)) (impl (cfds s2 newDir)) newName)
                        s2 of
                   (Inl err, s3) \<Rightarrow> Some (Inl err, s3)
                 | (Inr (updateControlFD, cleanUp), s3) \<Rightarrow>
                     (let s4 = fold (renameUnderRoot newDir newName updateControlFD oldPath)
                                 (mountPoints s3) s3;
                          s5 = (case cleanUp of
                                  None \<Rightarrow> s4
                                | Some f \<Rightarrow> s4\<lparr>backend_state := f (backend_state s4)\<rparr>)
                      in Some (Inr R_None, s5))))))))))))"

subsection \<open>A concrete server for the examples\<close>

text \<open>
  A backend whose state counts its invocations, whose Sync fails with EIO on the
  capability 22 and succeeds on every other one. The store holds the mount root
  \<open>/srv\<close> (handle 10) with the regular file \<open>a\<close> (handle 20) and the directory \<open>d\<close>
  (handle 30) below it; the open handles 40 and 60 are on the file, the open handle 50 is
  on the directory. The descriptors 1, 2, 3 name the control handles and 4, 5, 6 the
  open handles.
\<close>

definition testBackend :: "nat backend" where
  "testBackend =
     \<lparr> Mount = (\<lambda>p b. (Inr (10, (1, 0)), Suc b)),
       SupportedMessages = [1, 2, 3],
       MaxMessageSize = 4096,
       SetStat = (\<lambda>i m v b. ((0, None), Suc b)),
       WalkStat = (\<lambda>i path b. (Inr (map length path), Suc b)),
       Open = (\<lambda>i f b. (Inr 7, Suc b)),
       OpenCreate = (\<lambda>i m u g n f b. (Inr ((8, 0), 9), Suc b)),
       Sync = (\<lambda>i b. (if i = 22 then Some EIO else None, Suc b)),
       Write = (\<lambda>i buf off b. (Inr (length buf), Suc b)),
       Mkdir = (\<lambda>i m u g n b. (Inr (8, 0), Suc b)),
       Mknod = (\<lambda>i m u g n mi ma b. (Inr (8, 0), Suc b)),
       Symlink_op = (\<lambda>i n t u g b. (Inr (8, 0), Suc b)),
       Link = (\<lambda>i d n b. (Inr (8, 0), Suc b)),
       Allocate = (\<lambda>i m off len b. (None, Suc b)),
       Unlink = (\<lambda>i n f b. (None, Suc b)),
       RenameLocked = (\<lambda>i d n b. (Inr (None, None), Suc b)),
       Getdent64 = (\<lambda>i c seek0 b. (Inr [], Suc b)),
       SetXattr = (\<lambda>i n v f b. (None, Suc b)),
       RemoveXattr = (\<lambda>i n b. (None, Suc b)),
       Close = (\<lambda>i b. Suc b) \<rparr>"

definition testControlFDs :: "cptr \<Rightarrow> ControlFD" where
  "testControlFDs =
     (\<lambda>p. \<lparr>refs = 0, name = '''', parent = None, children = [], ftype = Regular, impl = 0\<rparr>)
     (10 := \<lparr>refs = 1, name = ''/srv'', parent = None, children = [20, 30],
            ftype = Directory, impl = 11\<rparr>,
      20 := \<lparr>refs = 1, name = ''a'', parent = Some 10, children = [],
            ftype = Regular, impl = 12\<rparr>,
      30 := \<lparr>refs = 1, name = ''d'', parent = Some 10, children = [],
            ftype = Directory, impl = 13\<rparr>)"

definition testOpenFDs :: "optr \<Rightarrow> OpenFD" where
  "testOpenFDs =
     (\<lambda>p. \<lparr>orefs = 0, controlFD = 0, readable = False, writable = False, oimpl = 0\<rparr>)
     (40 := \<lparr>orefs = 1, controlFD = 20, readable = True, writable = True, oimpl = 21\<rparr>,
      50 := \<lparr>orefs = 1, controlFD = 30, readable = True, writable = False, oimpl = 22\<rparr>,
      60 := \<lparr>orefs = 1, controlFD = 20, readable = True, writable = False, oimpl = 23\<rparr>)"

definition testFDs :: "FDID \<Rightarrow> genericFD option" where
  "testFDs =
     (\<lambda>i. None)
     (1 := Some (CFD 10), 2 := Some (CFD 20), 3 := Some (CFD 30),
      4 := Some (OFD 40), 5 := Some (OFD 50), 6 := Some (OFD 60))"

definition testState :: "nat state" where
  "testState =
     \<lparr> readonly = False, mounted = True, fds = testFDs, cfds = testControlFDs,
       ofds = testOpenFDs, mountPoints = [10], backend_state = 0, calls = [] \<rparr>"

subsection \<open>Observing the FSync loop\<close>

text \<open>
  Functions used to state what the loop of FSyncHandler does.

  \<open>syncAll B impls b\<close> is what the claim asks of the backend, written without the
  handler: Sync is invoked on each capability of the list \<open>impls\<close>, in order and
  whatever the earlier invocations returned, starting in the backend state \<open>b\<close>. It
  gives the list of the errors returned and the backend state after the last
  invocation. \<open>firstError\<close> is the first error of such a list that is not nil.
  \<open>openImpl s fdid\<close> is the capability of the open handle that the descriptor
  \<open>fdid\<close> names.

  \<open>syncOutcomes\<close> is the list of the errors that the successive calls of \<open>fsyncFD\<close>
  return, one per descriptor of the request, each call starting in the state that the
  previous one left; \<open>syncCalls s fdid\<close> is the backend invocation that belongs to the
  descriptor \<open>fdid\<close>, or none when the descriptor does not name an open handle.
\<close>

fun syncAll :: "'b backend \<Rightarrow> implref list \<Rightarrow> 'b \<Rightarrow> errno option list \<times> 'b" where
  "syncAll B [] b = ([], b)"
| "syncAll B (i # rest) b =
     (case Sync B i b of
        (err, b1) \<Rightarrow> (case syncAll B rest b1 of (errs, b2) \<Rightarrow> (err # errs, b2)))"

definition firstError :: "errno option list \<Rightarrow> errno option" where
  "firstError errs = (case filter (\<lambda>e. e \<noteq> None) errs of [] \<Rightarrow> None | e # _ \<Rightarrow> e)"

definition openImpl :: "'b state \<Rightarrow> FDID \<Rightarrow> implref" where
  "openImpl s fdid = (case fds s fdid of Some (OFD p) \<Rightarrow> oimpl (ofds s p) | _ \<Rightarrow> 0)"

fun syncOutcomes :: "'b backend \<Rightarrow> FDID list \<Rightarrow> 'b state \<Rightarrow> errno option list" where
  "syncOutcomes B [] s = []"
| "syncOutcomes B (fdid # rest) s =
     (case fsyncFD B s fdid of (err, s1) \<Rightarrow> err # syncOutcomes B rest s1)"

definition syncCalls :: "'b state \<Rightarrow> FDID \<Rightarrow> call list" where
  "syncCalls s fdid =
     (case fds s fdid of Some (OFD p) \<Rightarrow> [C_Sync (oimpl (ofds s p))] | _ \<Rightarrow> [])"

section \<open>Properties\<close>

subsection \<open>Safe names\<close>

lemma strings_Contains_single: "strings_Contains s [c] \<longleftrightarrow> c \<in> set s"
  by (induction s) auto

text \<open>
  Claim C5. \<open>checkSafeName\<close> returns EINVAL exactly when the name is empty, is \<open>.\<close> or
  \<open>..\<close>, or contains the byte \<open>/\<close>; for every other string it returns nil. In
  particular \<open>...\<close>, \<open>.hidden\<close> and a name of non-ASCII bytes (the UTF-8 encoding of
  U+00E9 followed by U+4E2D) are accepted, and no result other than nil and EINVAL
  exists.
\<close>

theorem checkSafeName_exact:
  "(checkSafeName n = Some EINVAL) =
     (n = '''' \<or> n = ''.'' \<or> n = ''..'' \<or> CHR ''/'' \<in> set n)
   \<and> (checkSafeName n = None) =
     (\<not> (n = '''' \<or> n = ''.'' \<or> n = ''..'' \<or> CHR ''/'' \<in> set n))
   \<and> checkSafeName ''...'' = None
   \<and> checkSafeName ''.hidden'' = None
   \<and> checkSafeName [CHR 0xC3, CHR 0xA9, CHR 0xE4, CHR 0xB8, CHR 0xAD] = None"
  by (simp add: checkSafeName_def strings_Contains_single)

subsection \<open>Read-only connections\<close>

text \<open>
  Claim C1. On a connection whose read-only flag is set, each of the twelve mutating
  handlers (SetStat, OpenCreateAt, PWrite, MkdirAt, MknodAt, SymlinkAt, LinkAt,
  FAllocate, UnlinkAt, RenameAt, FSetXattr, FRemoveXattr) returns EROFS whatever the
  payload is, decodable or not, and returns the server state as it received it: no
  descriptor is looked up, no reference count changes, and the record of backend
  invocations is the one before the request.
\<close>

theorem readonly_rejects_mutating:
  assumes "readonly s"
  shows "SetStatHandler B s p1 = (Inl EROFS, s)
    \<and> OpenCreateAtHandler B s p2 = (Inl EROFS, s)
    \<and> PWriteHandler B s p3 = (Inl EROFS, s)
    \<and> MkdirAtHandler B s p4 = (Inl EROFS, s)
    \<and> MknodAtHandler B s p5 = (Inl EROFS, s)
    \<and> SymlinkAtHandler B s p6 = (Inl EROFS, s)
    \<and> LinkAtHandler B s p7 = (Inl EROFS, s)
    \<and> FAllocateHandler B s p8 = (Inl EROFS, s)
    \<and> UnlinkAtHandler B s p9 = (Inl EROFS, s)
    \<and> RenameAtHandler B s p10 = Some (Inl EROFS, s)
    \<and> FSetXattrHandler B s p11 = (Inl EROFS, s)
    \<and> FRemoveXattrHandler B s p12 = (Inl EROFS, s)"
  using assms
  by (simp add: SetStatHandler_def OpenCreateAtHandler_def PWriteHandler_def
      MkdirAtHandler_def MknodAtHandler_def SymlinkAtHandler_def LinkAtHandler_def
      FAllocateHandler_def UnlinkAtHandler_def RenameAtHandler_def FSetXattrHandler_def
      FRemoveXattrHandler_def)

theorem readonly_rejects_mutating_witness:
  "readonly (testState\<lparr>readonly := True\<rparr>)
   \<and> MkdirAtHandler testBackend (testState\<lparr>readonly := True\<rparr>) (Some (1, 0, 0, 0, ''x''))
       = (Inl EROFS, testState\<lparr>readonly := True\<rparr>)
   \<and> calls (snd (MkdirAtHandler testBackend (testState\<lparr>readonly := True\<rparr>)
                   (Some (1, 0, 0, 0, ''x'')))) = []
   \<and> PWriteHandler testBackend (testState\<lparr>readonly := True\<rparr>) None
       = (Inl EROFS, testState\<lparr>readonly := True\<rparr>)
   \<and> RenameAtHandler testBackend (testState\<lparr>readonly := True\<rparr>) (Some (2, 3, ''b''))
       = Some (Inl EROFS, testState\<lparr>readonly := True\<rparr>)"
proof -
  have ro: "readonly (testState\<lparr>readonly := True\<rparr>)" by simp
  have c: "calls (testState\<lparr>readonly := True\<rparr>) = []" by (simp add: testState_def)
  from readonly_rejects_mutating [OF ro, of testBackend] ro c show ?thesis by simp
qed

subsection \<open>Auxiliary facts: lookups, releases and the concrete server\<close>

lemma LookupControlFD_Some:
  "fds s i = Some (CFD p) \<Longrightarrow>
   LookupControlFD s i =
     Inr (p, s\<lparr>cfds := (cfds s)(p := (cfds s p)\<lparr>refs := refs (cfds s p) + 1\<rparr>)\<rparr>)"
  by (simp add: LookupControlFD_def)

lemma LookupOpenFD_Some:
  "fds s i = Some (OFD p) \<Longrightarrow>
   LookupOpenFD s i =
     Inr (p, s\<lparr>ofds := (ofds s)(p := (ofds s p)\<lparr>orefs := orefs (ofds s p) + 1\<rparr>)\<rparr>)"
  by (simp add: LookupOpenFD_def)

lemma DecRefControl_restore:
  "refs (cfds s p) \<noteq> 0 \<Longrightarrow>
   DecRefControl B p
     (s\<lparr>cfds := (cfds s)(p := (cfds s p)\<lparr>refs := refs (cfds s p) + 1\<rparr>)\<rparr>) = s"
  by (simp add: DecRefControl_def Let_def)

lemma DecRefOpen_restore:
  "orefs (ofds s p) \<noteq> 0 \<Longrightarrow>
   DecRefOpen B p
     (s\<lparr>ofds := (ofds s)(p := (ofds s p)\<lparr>orefs := orefs (ofds s p) + 1\<rparr>)\<rparr>) = s"
  by (simp add: DecRefOpen_def Let_def)

lemma DecRefControl_invoke:
  "refs (cfds s p) \<noteq> 0 \<Longrightarrow>
   deferDecRefControl B p
     (invoke c f (s\<lparr>cfds := (cfds s)(p := (cfds s p)\<lparr>refs := refs (cfds s p) + 1\<rparr>)\<rparr>))
   = invoke c f s"
  by (simp add: DecRefControl_def deferDecRefControl_def invoke_def Let_def split: prod.splits)

lemma DecRefOpen_invoke:
  "orefs (ofds s p) \<noteq> 0 \<Longrightarrow>
   deferDecRefOpen B p
     (invoke c f (s\<lparr>ofds := (ofds s)(p := (ofds s p)\<lparr>orefs := orefs (ofds s p) + 1\<rparr>)\<rparr>))
   = invoke c f s"
  by (simp add: DecRefOpen_def deferDecRefOpen_def invoke_def Let_def split: prod.splits)

lemma IsDir_refs [simp]: "IsDir (fd\<lparr>refs := n\<rparr>) = IsDir fd"
  by (simp add: IsDir_def)

lemma deferDecRefControl_pair:
  "deferDecRefControl B p (r, s) = (r, DecRefControl B p s)"
  by (simp add: deferDecRefControl_def)

lemma deferDecRefOpen_pair:
  "deferDecRefOpen B p (r, s) = (r, DecRefOpen B p s)"
  by (simp add: deferDecRefOpen_def)

lemma test_fds [simp]:
  "fds testState 1 = Some (CFD 10)" "fds testState 2 = Some (CFD 20)"
  "fds testState 3 = Some (CFD 30)" "fds testState 4 = Some (OFD 40)"
  "fds testState 5 = Some (OFD 50)" "fds testState 6 = Some (OFD 60)"
  by (simp_all add: testState_def testFDs_def)

lemma test_cfds [simp]:
  "cfds testState 10 = \<lparr>refs = 1, name = ''/srv'', parent = None, children = [20, 30],
            ftype = Directory, impl = 11\<rparr>"
  "cfds testState 20 = \<lparr>refs = 1, name = ''a'', parent = Some 10, children = [],
            ftype = Regular, impl = 12\<rparr>"
  "cfds testState 30 = \<lparr>refs = 1, name = ''d'', parent = Some 10, children = [],
            ftype = Directory, impl = 13\<rparr>"
  by (simp_all add: testState_def testControlFDs_def)

lemma test_ofds [simp]:
  "ofds testState 40 =
     \<lparr>orefs = 1, controlFD = 20, readable = True, writable = True, oimpl = 21\<rparr>"
  "ofds testState 50 =
     \<lparr>orefs = 1, controlFD = 30, readable = True, writable = False, oimpl = 22\<rparr>"
  "ofds testState 60 =
     \<lparr>orefs = 1, controlFD = 20, readable = True, writable = False, oimpl = 23\<rparr>"
  by (simp_all add: testState_def testOpenFDs_def)

lemma test_flags [simp]:
  "\<not> readonly testState" "mounted testState" "backend_state testState = 0"
  "calls testState = []" "mountPoints testState = [10]"
  by (simp_all add: testState_def)

subsection \<open>The mount gate\<close>

text \<open>
  Claim C4. The mounted flag goes from false to true once. On a mounted connection a
  Mount request whose cleaned path is absolute fails with EBUSY and returns the state
  as it was: the backend Mount is not invoked and the flag stays true. No Mount
  request, whatever its payload, resets the flag. On an unmounted connection the flag
  is set exactly when the handler succeeds; and after a successful Mount, a further
  Mount request with an absolute path is answered with EBUSY.
\<close>

theorem Mount_once:
  "(mounted s \<longrightarrow> filepath_IsAbs (clean p) \<longrightarrow>
      MountHandler clean B s (Some p) = (Inl EBUSY, s))
   \<and> (mounted s \<longrightarrow> mounted (snd (MountHandler clean B s payload)))
   \<and> (\<not> mounted s \<longrightarrow>
        mounted (snd (MountHandler clean B s payload)) =
          (\<exists>r. fst (MountHandler clean B s payload) = Inr r))
   \<and> (MountHandler clean B s payload = (Inr r, s') \<longrightarrow> filepath_IsAbs (clean p) \<longrightarrow>
        MountHandler clean B s' (Some p) = (Inl EBUSY, s'))"
  by (auto simp: MountHandler_def invoke_def addMountPoint_def Let_def
      split: option.splits prod.splits sum.splits if_splits)

theorem Mount_once_witness:
  "mounted testState \<and> filepath_IsAbs ''/srv''
   \<and> MountHandler (\<lambda>p. p) testBackend testState (Some ''/srv'') = (Inl EBUSY, testState)
   \<and> \<not> mounted (testState\<lparr>mounted := False\<rparr>)
   \<and> MountHandler (\<lambda>p. p) testBackend (testState\<lparr>mounted := False\<rparr>) (Some ''/srv'') =
       (Inr (R_Mount (1, 0) [1, 2, 3] 4096),
        testState\<lparr>mountPoints := [10, 10], backend_state := 1, calls := [C_Mount ''/srv'']\<rparr>)
   \<and> MountHandler (\<lambda>p. p) testBackend
        (testState\<lparr>mountPoints := [10, 10], backend_state := 1, calls := [C_Mount ''/srv'']\<rparr>)
        (Some ''/mnt'') =
       (Inl EBUSY,
        testState\<lparr>mountPoints := [10, 10], backend_state := 1, calls := [C_Mount ''/srv'']\<rparr>)"
proof -
  have abs: "filepath_IsAbs ((\<lambda>p. p) ''/srv'')" "filepath_IsAbs ((\<lambda>p. p) ''/mnt'')"
    by (simp_all add: filepath_IsAbs_def strings_HasPrefix_def)
  have m: "mounted testState" by simp
  have first: "MountHandler (\<lambda>p. p) testBackend (testState\<lparr>mounted := False\<rparr>) (Some ''/srv'') =
       (Inr (R_Mount (1, 0) [1, 2, 3] 4096),
        testState\<lparr>mountPoints := [10, 10], backend_state := 1, calls := [C_Mount ''/srv'']\<rparr>)"
    using abs
    by (simp add: MountHandler_def invoke_def addMountPoint_def testBackend_def testState_def)
  note t = Mount_once [where clean = "\<lambda>p. p" and B = testBackend]
  from t [of testState "''/srv''", THEN conjunct1, rule_format, OF m abs(1)]
    t [THEN conjunct2, THEN conjunct2, THEN conjunct2, rule_format, OF first abs(2)]
    first abs m
  show ?thesis by simp
qed

subsection \<open>OpenAt: flag filtering and directories\<close>

lemma allowed_idem: "(f AND allowedOpenFlags) AND allowedOpenFlags = f AND allowedOpenFlags"
  by (simp add: word_bw_assocs)

lemma filtered_flags:
  "(if f AND allowedOpenFlags \<noteq> f then f AND allowedOpenFlags else f) = f AND allowedOpenFlags"
  by auto

lemma filtered_accmode: "(f AND allowedOpenFlags) AND O_ACCMODE = f AND O_ACCMODE"
  by (simp add: allowedOpenFlags_def O_ACCMODE_def O_TRUNC_def word_bw_assocs)

lemma filtered_trunc: "(f AND allowedOpenFlags) AND O_TRUNC = f AND O_TRUNC"
  by (simp add: allowedOpenFlags_def O_ACCMODE_def O_TRUNC_def word_bw_assocs)

lemma deferDecRefControl_OpenAt_resp:
  "deferDecRefControl B p
     (case x of (Inl err, s2) \<Rightarrow> (Inl err, s2) | (Inr openFD, s2) \<Rightarrow> (Inr (R_OpenAt openFD), s2))
   = (case deferDecRefControl B p x of
        (Inl err, s2) \<Rightarrow> (Inl err, s2)
      | (Inr openFD, s2) \<Rightarrow> (Inr (R_OpenAt openFD), s2))"
  by (simp add: deferDecRefControl_def split: prod.splits sum.splits)

lemma OpenAt_lookup_ok:
  assumes a: "fds s FD = Some (CFD p)" and b: "refs (cfds s p) \<noteq> 0"
    and d: "\<not> (readonly s \<and> (f AND O_ACCMODE \<noteq> O_RDONLY \<or> f AND O_TRUNC \<noteq> 0))"
  shows "OpenAtHandler B s (Some (FD, f)) =
          (if IsDir (cfds s p) \<and> (f AND O_ACCMODE \<noteq> O_RDONLY \<or> f AND O_TRUNC \<noteq> 0)
           then (Inl EISDIR, s)
           else
             (case invoke (C_Open (impl (cfds s p)) (f AND allowedOpenFlags))
                     (Open B (impl (cfds s p)) (f AND allowedOpenFlags)) s of
                (Inl err, s2) \<Rightarrow> (Inl err, s2)
              | (Inr openFD, s2) \<Rightarrow> (Inr (R_OpenAt openFD), s2)))"
  using a b d unfolding OpenAtHandler_def
  by (cases "IsDir (cfds s p)"; cases "f AND O_ACCMODE = O_RDONLY";
      cases "f AND O_TRUNC = 0"; cases "readonly s")
    (simp_all add: Let_def filtered_flags filtered_accmode filtered_trunc
      LookupControlFD_Some deferDecRefControl_OpenAt_resp DecRefControl_invoke
      deferDecRefControl_pair DecRefControl_restore)

lemma open_flag_values:
  "allowedOpenFlags = 0x203" "O_ACCMODE = 0x3" "O_TRUNC = 0x200" "O_RDONLY = 0"
  by (simp_all add: allowedOpenFlags_def O_ACCMODE_def O_TRUNC_def O_RDONLY_def)

lemma invoke_resp:
  "(case invoke c f s of (Inl err, s2) \<Rightarrow> (Inl err, s2) | (Inr v, s2) \<Rightarrow> (Inr (g v), s2)) =
   (case f (backend_state s) of
      (Inl err, b) \<Rightarrow> (Inl err, s\<lparr>backend_state := b, calls := calls s @ [c]\<rparr>)
    | (Inr v, b) \<Rightarrow> (Inr (g v), s\<lparr>backend_state := b, calls := calls s @ [c]\<rparr>))"
  by (simp add: invoke_def split: prod.splits sum.splits)

text \<open>
  Claim C6. In the statement the masks are written as numbers: \<open>0x3\<close> is O_ACCMODE,
  \<open>0x200\<close> is O_TRUNC and \<open>0x203\<close> is the two together; O_RDONLY is \<open>0\<close>. OpenAt
  keeps of the requested flags only the access-mode bits and O_TRUNC: the handler
  behaves on any flags \<open>f\<close> as on \<open>f AND 0x203\<close>, so no later check and no backend
  operation sees another bit. When the descriptor names a control handle (and the
  request has passed the read-only check, which comes before the lookup), the result
  is known exactly. For a directory the request fails with EISDIR, leaving the state
  as it was, unless the access mode is O_RDONLY and O_TRUNC is absent. In every other
  case, for a directory and for any other kind of file, the backend Open is invoked
  once with the flags \<open>f AND 0x203\<close>, the handler's answer is the backend's answer,
  and the state differs only by that invocation.
\<close>

theorem OpenAt_flags:
  "OpenAtHandler B s (Some (FD, f)) = OpenAtHandler B s (Some (FD, f AND 0x203))
   \<and> (fds s FD = Some (CFD p) \<longrightarrow> refs (cfds s p) \<noteq> 0 \<longrightarrow>
        \<not> (readonly s \<and> (f AND 0x3 \<noteq> 0 \<or> f AND 0x200 \<noteq> 0)) \<longrightarrow>
        OpenAtHandler B s (Some (FD, f)) =
          (if IsDir (cfds s p) \<and> (f AND 0x3 \<noteq> 0 \<or> f AND 0x200 \<noteq> 0)
           then (Inl EISDIR, s)
           else
             (case Open B (impl (cfds s p)) (f AND 0x203) (backend_state s) of
                (Inl err, b) \<Rightarrow>
                  (Inl err,
                   s\<lparr>backend_state := b,
                     calls := calls s @ [C_Open (impl (cfds s p)) (f AND 0x203)]\<rparr>)
              | (Inr openFD, b) \<Rightarrow>
                  (Inr (R_OpenAt openFD),
                   s\<lparr>backend_state := b,
                     calls := calls s @ [C_Open (impl (cfds s p)) (f AND 0x203)]\<rparr>))))"
proof -
  have 1: "OpenAtHandler B s (Some (FD, f)) =
           OpenAtHandler B s (Some (FD, f AND allowedOpenFlags))"
    unfolding OpenAtHandler_def by (simp add: filtered_flags allowed_idem)
  note 2 = OpenAt_lookup_ok [of s FD p f B, unfolded open_flag_values invoke_resp]
  from 1 [unfolded open_flag_values] 2 show ?thesis by blast
qed

theorem OpenAt_flags_witness:
  "fds testState 1 = Some (CFD 10) \<and> refs (cfds testState 10) \<noteq> 0
   \<and> IsDir (cfds testState 10)
   \<and> fds testState 2 = Some (CFD 20) \<and> refs (cfds testState 20) \<noteq> 0
   \<and> \<not> IsDir (cfds testState 20) \<and> \<not> readonly testState
   \<and> OpenAtHandler testBackend testState (Some (1, 0x4001)) = (Inl EISDIR, testState)
   \<and> OpenAtHandler testBackend testState (Some (1, 0x4200)) = (Inl EISDIR, testState)
   \<and> OpenAtHandler testBackend testState (Some (1, 0x4000)) =
       (Inr (R_OpenAt 7), testState\<lparr>backend_state := 1, calls := [C_Open 11 0]\<rparr>)
   \<and> OpenAtHandler testBackend testState (Some (2, 0x10440)) =
       (Inr (R_OpenAt 7), testState\<lparr>backend_state := 1, calls := [C_Open 12 0]\<rparr>)
   \<and> OpenAtHandler testBackend testState (Some (2, 0x10641)) =
       (Inr (R_OpenAt 7), testState\<lparr>backend_state := 1, calls := [C_Open 12 0x201]\<rparr>)
   \<and> OpenAtHandler testBackend testState (Some (2, 0xFFFFFFFF)) =
       (Inr (R_OpenAt 7), testState\<lparr>backend_state := 1, calls := [C_Open 12 0x203]\<rparr>)
   \<and> OpenAtHandler testBackend testState (Some (2, 0x2)) =
       (Inr (R_OpenAt 7), testState\<lparr>backend_state := 1, calls := [C_Open 12 0x2]\<rparr>)"
proof -
  have pre: "fds testState 1 = Some (CFD 10)" "refs (cfds testState 10) \<noteq> 0"
    and dir: "IsDir (cfds testState 10)"
    and pre2: "fds testState 2 = Some (CFD 20)" "refs (cfds testState 20) \<noteq> 0"
    and ndir: "\<not> IsDir (cfds testState 20)"
    by (simp_all add: IsDir_def)
  have ro: "\<not> (readonly testState \<and> X)" for X by simp
  note t = OpenAt_flags [THEN conjunct2, rule_format, OF pre ro]
  note t2 = OpenAt_flags [THEN conjunct2, rule_format, OF pre2 ro]
  have a: "OpenAtHandler testBackend testState (Some (1, 0x4001)) = (Inl EISDIR, testState)"
    by (subst t) (simp add: IsDir_def)
  have b: "OpenAtHandler testBackend testState (Some (1, 0x4200)) = (Inl EISDIR, testState)"
    by (subst t) (simp add: IsDir_def)
  have c: "OpenAtHandler testBackend testState (Some (1, 0x4000)) =
       (Inr (R_OpenAt 7), testState\<lparr>backend_state := 1, calls := [C_Open 11 0]\<rparr>)"
    by (subst t) (simp add: IsDir_def testBackend_def)
  have d: "OpenAtHandler testBackend testState (Some (2, 0x10440)) =
       (Inr (R_OpenAt 7), testState\<lparr>backend_state := 1, calls := [C_Open 12 0]\<rparr>)"
    by (subst t2) (simp add: IsDir_def testBackend_def)
  have e: "OpenAtHandler testBackend testState (Some (2, 0x10641)) =
       (Inr (R_OpenAt 7), testState\<lparr>backend_state := 1, calls := [C_Open 12 0x201]\<rparr>)"
    by (subst t2) (simp add: IsDir_def testBackend_def)
  have g: "OpenAtHandler testBackend testState (Some (2, 0xFFFFFFFF)) =
       (Inr (R_OpenAt 7), testState\<lparr>backend_state := 1, calls := [C_Open 12 0x203]\<rparr>)"
    by (subst t2) (simp add: IsDir_def testBackend_def)
  have h: "OpenAtHandler testBackend testState (Some (2, 0x2)) =
       (Inr (R_OpenAt 7), testState\<lparr>backend_state := 1, calls := [C_Open 12 0x2]\<rparr>)"
    by (subst t2) (simp add: IsDir_def testBackend_def)
  from pre dir pre2 ndir a b c d e g h show ?thesis by simp
qed

subsection \<open>OpenAt on a read-only connection\<close>

lemma calls_invoke: "calls (snd (invoke c f s)) = calls s @ [c]"
  by (simp add: invoke_def split: prod.splits)

lemma calls_DecRefControl: "\<exists>cs. calls (DecRefControl B p s) = calls s @ cs"
  by (simp add: DecRefControl_def destroyControlFD_def unregister_def invoke_def Let_def
      split: option.splits)

lemma OpenAt_proceeds_calls:
  assumes "f AND O_ACCMODE = O_RDONLY" "f AND O_TRUNC = 0" "fds s FD = Some (CFD p)"
  shows "\<exists>cs. calls (snd (OpenAtHandler B s (Some (FD, f)))) =
           calls s @ C_Open (impl (cfds s p)) (f AND allowedOpenFlags) # cs"
proof -
  let ?s1 = "s\<lparr>cfds := (cfds s)(p := (cfds s p)\<lparr>refs := refs (cfds s p) + 1\<rparr>)\<rparr>"
  let ?x = "invoke (C_Open (impl (cfds s p)) (f AND allowedOpenFlags))
              (Open B (impl (cfds s p)) (f AND allowedOpenFlags)) ?s1"
  have "snd (OpenAtHandler B s (Some (FD, f))) = DecRefControl B p (snd ?x)"
    using assms unfolding OpenAtHandler_def
    by (simp add: Let_def filtered_flags filtered_accmode filtered_trunc LookupControlFD_Some
        deferDecRefControl_def split: prod.splits sum.splits)
  moreover obtain cs where "calls (DecRefControl B p (snd ?x)) = calls (snd ?x) @ cs"
    using calls_DecRefControl by blast
  moreover have "calls (snd ?x) = calls s @ [C_Open (impl (cfds s p)) (f AND allowedOpenFlags)]"
    by (simp add: calls_invoke)
  ultimately show ?thesis by simp
qed

lemma OpenAt_lookup_fails:
  assumes "\<not> (readonly s \<and> (f AND O_ACCMODE \<noteq> O_RDONLY \<or> f AND O_TRUNC \<noteq> 0))"
    and "\<forall>p. fds s FD \<noteq> Some (CFD p)"
  shows "OpenAtHandler B s (Some (FD, f)) = (Inl EBADF, s)"
  using assms unfolding OpenAtHandler_def
  by (auto simp: Let_def filtered_flags filtered_accmode filtered_trunc LookupControlFD_def
      split: option.splits genericFD.splits)

lemma OpenAt_proceeds_fst:
  assumes "f AND O_ACCMODE = O_RDONLY" "f AND O_TRUNC = 0" "fds s FD = Some (CFD p)"
  shows "fst (OpenAtHandler B s (Some (FD, f))) =
           (case fst (Open B (impl (cfds s p)) (f AND allowedOpenFlags) (backend_state s)) of
              Inl err \<Rightarrow> Inl err
            | Inr openFD \<Rightarrow> Inr (R_OpenAt openFD))"
  using assms unfolding OpenAtHandler_def
  by (simp add: Let_def filtered_flags filtered_accmode filtered_trunc LookupControlFD_Some
      deferDecRefControl_def invoke_def split: prod.splits sum.splits)

text \<open>
  Claim C10. As above, \<open>0x3\<close> is O_ACCMODE, \<open>0x200\<close> is O_TRUNC and O_RDONLY is \<open>0\<close>;
  masking with \<open>0x203\<close> changes neither \<open>f AND 0x3\<close> nor \<open>f AND 0x200\<close>. On a
  read-only connection OpenAt is turned away by the handler with EROFS, before any
  lookup and with the state as it was, exactly when the access mode is not O_RDONLY
  or O_TRUNC is set. With access mode O_RDONLY and no O_TRUNC, whatever the other
  bits of the request are, the handler goes on as on a writable connection: an
  unknown descriptor gives EBADF; for a control descriptor the backend Open is
  invoked with the flags \<open>0\<close>, and (the handle being referenced) the handler's answer
  is the backend's answer, success or error, and the state differs only by that
  invocation; the answer is the backend's also when the reference count is not known. The handler itself adds no EROFS on this path; an EROFS can then only
  be the backend's own answer.
\<close>

theorem OpenAt_readonly:
  assumes "readonly s"
  shows "(OpenAtHandler B s (Some (FD, f)) = (Inl EROFS, s)) =
           (f AND 0x3 \<noteq> 0 \<or> f AND 0x200 \<noteq> 0)
    \<and> (f AND 0x203) AND 0x3 = f AND 0x3 \<and> (f AND 0x203) AND 0x200 = f AND 0x200
    \<and> (f AND 0x3 = 0 \<longrightarrow> f AND 0x200 = 0 \<longrightarrow>
          f AND 0x203 = 0
          \<and> ((\<forall>p. fds s FD \<noteq> Some (CFD p)) \<longrightarrow>
                OpenAtHandler B s (Some (FD, f)) = (Inl EBADF, s))
          \<and> (\<forall>p. fds s FD = Some (CFD p) \<longrightarrow>
                (\<exists>cs. calls (snd (OpenAtHandler B s (Some (FD, f)))) =
                   calls s @ C_Open (impl (cfds s p)) 0 # cs))
          \<and> (\<forall>p. fds s FD = Some (CFD p) \<longrightarrow> refs (cfds s p) \<noteq> 0 \<longrightarrow>
                OpenAtHandler B s (Some (FD, f)) =
                  (case Open B (impl (cfds s p)) 0 (backend_state s) of
                     (Inl err, b) \<Rightarrow>
                       (Inl err,
                        s\<lparr>backend_state := b,
                          calls := calls s @ [C_Open (impl (cfds s p)) 0]\<rparr>)
                   | (Inr openFD, b) \<Rightarrow>
                       (Inr (R_OpenAt openFD),
                        s\<lparr>backend_state := b,
                          calls := calls s @ [C_Open (impl (cfds s p)) 0]\<rparr>)))
          \<and> (\<forall>p. fds s FD = Some (CFD p) \<longrightarrow>
                fst (OpenAtHandler B s (Some (FD, f))) =
                  (case fst (Open B (impl (cfds s p)) 0 (backend_state s)) of
                     Inl err \<Rightarrow> Inl err
                   | Inr openFD \<Rightarrow> Inr (R_OpenAt openFD))))"
proof -
  have m: "(f AND 0x203) AND 0x3 = f AND 0x3" "(f AND 0x203) AND 0x200 = f AND 0x200"
    by (simp_all add: word_bw_assocs)
  have z: "f AND 0x203 = 0" if "f AND 0x3 = 0" "f AND 0x200 = 0"
  proof -
    have "(0x203 :: 32 word) = 0x3 OR 0x200" by simp
    then have "f AND 0x203 = (f AND 0x3) OR (f AND 0x200)"
      by (simp only: word_ao_dist2)
    with that show ?thesis by simp
  qed
  show ?thesis
  proof (cases "f AND 0x3 \<noteq> 0 \<or> f AND 0x200 \<noteq> 0")
    case True
    then have "f AND O_ACCMODE \<noteq> O_RDONLY \<or> f AND O_TRUNC \<noteq> 0"
      by (simp add: open_flag_values)
    with assms have "OpenAtHandler B s (Some (FD, f)) = (Inl EROFS, s)"
      unfolding OpenAtHandler_def
      by (auto simp: Let_def filtered_flags filtered_accmode filtered_trunc)
    with True m show ?thesis by auto
  next
    case False
    then have ok: "f AND O_ACCMODE = O_RDONLY" "f AND O_TRUNC = 0"
      and ok': "f AND 0x3 = 0" "f AND 0x200 = 0"
      by (auto simp: open_flag_values)
    note zero = z [OF ok']
    have ne: "OpenAtHandler B s (Some (FD, f)) \<noteq> (Inl EROFS, s)"
    proof (cases "\<exists>p. fds s FD = Some (CFD p)")
      case True
      then obtain p where p: "fds s FD = Some (CFD p)" by blast
      from OpenAt_proceeds_calls [OF ok p, of B]
      have "calls (snd (OpenAtHandler B s (Some (FD, f)))) \<noteq> calls s" by auto
      then show ?thesis by auto
    next
      case False
      with ok have "OpenAtHandler B s (Some (FD, f)) = (Inl EBADF, s)"
        by (intro OpenAt_lookup_fails) auto
      then show ?thesis by simp
    qed
    from ok have nb: "\<not> (readonly s \<and> (f AND O_ACCMODE \<noteq> O_RDONLY \<or> f AND O_TRUNC \<noteq> 0))"
      by simp
    have bad: "OpenAtHandler B s (Some (FD, f)) = (Inl EBADF, s)"
      if "\<forall>p. fds s FD \<noteq> Some (CFD p)"
      using OpenAt_lookup_fails [OF nb that] .
    have cl: "\<exists>cs. calls (snd (OpenAtHandler B s (Some (FD, f)))) =
                   calls s @ C_Open (impl (cfds s p)) 0 # cs"
      if "fds s FD = Some (CFD p)" for p
      using OpenAt_proceeds_calls [OF ok that, of B]
      by (simp add: open_flag_values zero)
    have ex: "OpenAtHandler B s (Some (FD, f)) =
                  (case Open B (impl (cfds s p)) 0 (backend_state s) of
                     (Inl err, b) \<Rightarrow>
                       (Inl err,
                        s\<lparr>backend_state := b,
                          calls := calls s @ [C_Open (impl (cfds s p)) 0]\<rparr>)
                   | (Inr openFD, b) \<Rightarrow>
                       (Inr (R_OpenAt openFD),
                        s\<lparr>backend_state := b,
                          calls := calls s @ [C_Open (impl (cfds s p)) 0]\<rparr>))"
      if "fds s FD = Some (CFD p)" "refs (cfds s p) \<noteq> 0" for p
      using OpenAt_lookup_ok [OF that nb, of B] ok
      unfolding invoke_resp open_flag_values zero by simp
    have fs: "fst (OpenAtHandler B s (Some (FD, f))) =
                  (case fst (Open B (impl (cfds s p)) 0 (backend_state s)) of
                     Inl err \<Rightarrow> Inl err
                   | Inr openFD \<Rightarrow> Inr (R_OpenAt openFD))"
      if "fds s FD = Some (CFD p)" for p
      using OpenAt_proceeds_fst [OF ok that, of B] unfolding open_flag_values zero .
    from False ne have iff: "(OpenAtHandler B s (Some (FD, f)) = (Inl EROFS, s)) =
           (f AND 0x3 \<noteq> 0 \<or> f AND 0x200 \<noteq> 0)"
      by simp
    show ?thesis
      by (intro conjI impI allI)
        (rule iff m zero | (rule bad, assumption) | (rule cl, assumption)
          | (rule ex, assumption, assumption) | (rule fs, assumption))+
  qed
qed

theorem OpenAt_readonly_witness:
  "readonly (testState\<lparr>readonly := True\<rparr>)
   \<and> OpenAtHandler testBackend (testState\<lparr>readonly := True\<rparr>) (Some (2, 0x4001))
       = (Inl EROFS, testState\<lparr>readonly := True\<rparr>)
   \<and> OpenAtHandler testBackend (testState\<lparr>readonly := True\<rparr>) (Some (2, 0x200))
       = (Inl EROFS, testState\<lparr>readonly := True\<rparr>)
   \<and> OpenAtHandler testBackend (testState\<lparr>readonly := True\<rparr>) (Some (2, 0x4000))
       \<noteq> (Inl EROFS, testState\<lparr>readonly := True\<rparr>)
   \<and> OpenAtHandler testBackend (testState\<lparr>readonly := True\<rparr>) (Some (9, 0x4000))
       = (Inl EBADF, testState\<lparr>readonly := True\<rparr>)
   \<and> fds (testState\<lparr>readonly := True\<rparr>) 2 = Some (CFD 20)
   \<and> refs (cfds (testState\<lparr>readonly := True\<rparr>) 20) \<noteq> 0
   \<and> OpenAtHandler testBackend (testState\<lparr>readonly := True\<rparr>) (Some (2, 0x4000))
       = (Inr (R_OpenAt 7),
          testState\<lparr>readonly := True, backend_state := 1, calls := [C_Open 12 0]\<rparr>)
   \<and> OpenAtHandler (testBackend\<lparr>Open := \<lambda>i f b. (Inl EROFS, Suc b)\<rparr>)
         (testState\<lparr>readonly := True\<rparr>) (Some (2, 0x4000))
       = (Inl EROFS,
          testState\<lparr>readonly := True, backend_state := 1, calls := [C_Open 12 0]\<rparr>)"
proof -
  let ?s = "testState\<lparr>readonly := True\<rparr>"
  have ro: "readonly ?s" by simp
  have nine: "fds ?s 9 \<noteq> Some (CFD p)" for p by (simp add: testState_def testFDs_def)
  have two: "fds ?s 2 = Some (CFD 20)" and r: "refs (cfds ?s 20) \<noteq> 0" by simp_all
  note t = OpenAt_readonly [OF ro]
  have a: "OpenAtHandler testBackend ?s (Some (2, 0x4001)) = (Inl EROFS, ?s)"
    by (subst t [THEN conjunct1]) simp
  have b: "OpenAtHandler testBackend ?s (Some (2, 0x200)) = (Inl EROFS, ?s)"
    by (subst t [THEN conjunct1]) simp
  have c: "OpenAtHandler testBackend ?s (Some (2, 0x4000)) \<noteq> (Inl EROFS, ?s)"
    by (subst t [THEN conjunct1]) simp
  have fl: "(0x4000 :: 32 word) AND 0x3 = 0" "(0x4000 :: 32 word) AND 0x200 = 0"
    by simp_all
  note u = t [where f = "0x4000", THEN conjunct2, THEN conjunct2, THEN conjunct2,
      rule_format, OF fl]
  have d: "OpenAtHandler testBackend ?s (Some (9, 0x4000)) = (Inl EBADF, ?s)"
    using u [where B = testBackend and FD = 9, THEN conjunct2, THEN conjunct1, rule_format, OF nine] .
  have e: "OpenAtHandler testBackend ?s (Some (2, 0x4000))
       = (Inr (R_OpenAt 7),
          testState\<lparr>readonly := True, backend_state := 1, calls := [C_Open 12 0]\<rparr>)"
    using u [where B = testBackend and FD = 2, THEN conjunct2, THEN conjunct2, THEN conjunct2,
        THEN conjunct1, rule_format, OF two r]
    by (simp add: testBackend_def)
  have g: "OpenAtHandler (testBackend\<lparr>Open := \<lambda>i f b. (Inl EROFS, Suc b)\<rparr>) ?s
         (Some (2, 0x4000))
       = (Inl EROFS,
          testState\<lparr>readonly := True, backend_state := 1, calls := [C_Open 12 0]\<rparr>)"
    using u [where B = "testBackend\<lparr>Open := \<lambda>i f b. (Inl EROFS, Suc b)\<rparr>" and FD = 2,
        THEN conjunct2, THEN conjunct2, THEN conjunct2, THEN conjunct1, rule_format,
        OF two r]
    by simp
  show ?thesis by (intro conjI) (rule ro a b c d two r e g)+
qed

subsection \<open>WalkStat on a descriptor that is not a directory\<close>

lemma deferDecRefControl_resp:
  "deferDecRefControl B p
     (case x of (Inl err, s2) \<Rightarrow> (Inl err, s2) | (Inr v, s2) \<Rightarrow> (Inr (g v), s2))
   = (case deferDecRefControl B p x of
        (Inl err, s2) \<Rightarrow> (Inl err, s2)
      | (Inr v, s2) \<Rightarrow> (Inr (g v), s2))"
  by (simp add: deferDecRefControl_def split: prod.splits sum.splits)

lemma deferDecRefOpen_resp:
  "deferDecRefOpen B p
     (case x of (Inl err, s2) \<Rightarrow> (Inl err, s2) | (Inr v, s2) \<Rightarrow> (Inr (g v), s2))
   = (case deferDecRefOpen B p x of
        (Inl err, s2) \<Rightarrow> (Inl err, s2)
      | (Inr v, s2) \<Rightarrow> (Inr (g v), s2))"
  by (simp add: deferDecRefOpen_def split: prod.splits sum.splits)

lemma nondir_cond:
  "(length Path > 1 \<or> (length Path = 1 \<and> length (Path ! 0) > 0)) =
   (\<not> (Path = [] \<or> Path = ['''']))"
  by (cases Path; cases "tl Path") auto

text \<open>
  Claim C8. For a control descriptor that is not a directory, WalkStat reaches the
  backend exactly when the path is empty or is the single component \<open>''''\<close>: the
  backend WalkStat is then invoked with that path and its answer is the handler's
  answer. For every other path (more than one component, or one non-empty component)
  the handler fails with ENOTDIR and leaves the state as it was.
\<close>

theorem WalkStat_nondir:
  assumes "fds s DirFD = Some (CFD p)" and "refs (cfds s p) \<noteq> 0"
    and "\<not> IsDir (cfds s p)"
  shows "WalkStatHandler B s (Some (DirFD, Path)) =
    (if Path = [] \<or> Path = ['''']
     then (case invoke (C_WalkStat (impl (cfds s p)) Path)
                  (WalkStat B (impl (cfds s p)) Path) s of
             (Inl err, s2) \<Rightarrow> (Inl err, s2)
           | (Inr stats, s2) \<Rightarrow> (Inr (R_WalkStat stats), s2))
     else (Inl ENOTDIR, s))"
proof -
  consider (empty) "Path = []" | (self) "Path = ['''']"
    | (other) "Path \<noteq> []" "Path \<noteq> ['''']"
    by blast
  then show ?thesis
  proof cases
    case empty
    with assms show ?thesis
      unfolding WalkStatHandler_def nondir_cond
      by (simp add: LookupControlFD_Some deferDecRefControl_resp DecRefControl_invoke
          SizeOfStatx_def MaxUint32_def)
  next
    case self
    with assms show ?thesis
      unfolding WalkStatHandler_def nondir_cond
      by (simp add: LookupControlFD_Some deferDecRefControl_resp DecRefControl_invoke
          SizeOfStatx_def MaxUint32_def)
  next
    case other
    with assms show ?thesis
      unfolding WalkStatHandler_def nondir_cond
      by (simp add: LookupControlFD_Some deferDecRefControl_pair DecRefControl_restore)
  qed
qed

theorem WalkStat_nondir_witness:
  "fds testState 2 = Some (CFD 20) \<and> refs (cfds testState 20) \<noteq> 0
   \<and> \<not> IsDir (cfds testState 20)
   \<and> WalkStatHandler testBackend testState (Some (2, [])) =
       (Inr (R_WalkStat []), testState\<lparr>backend_state := 1, calls := [C_WalkStat 12 []]\<rparr>)
   \<and> WalkStatHandler testBackend testState (Some (2, [''''])) =
       (Inr (R_WalkStat [0]), testState\<lparr>backend_state := 1, calls := [C_WalkStat 12 ['''']]\<rparr>)
   \<and> WalkStatHandler testBackend testState (Some (2, [''x''])) = (Inl ENOTDIR, testState)
   \<and> WalkStatHandler testBackend testState (Some (2, ['''', ''x''])) = (Inl ENOTDIR, testState)"
proof -
  have pre: "fds testState 2 = Some (CFD 20)" "refs (cfds testState 20) \<noteq> 0"
    "\<not> IsDir (cfds testState 20)"
    by (simp_all add: IsDir_def)
  note t = WalkStat_nondir [OF pre, of testBackend]
  have a: "WalkStatHandler testBackend testState (Some (2, [])) =
       (Inr (R_WalkStat []), testState\<lparr>backend_state := 1, calls := [C_WalkStat 12 []]\<rparr>)"
    by (subst t) (simp add: invoke_def testBackend_def)
  have b: "WalkStatHandler testBackend testState (Some (2, [''''])) =
       (Inr (R_WalkStat [0]), testState\<lparr>backend_state := 1, calls := [C_WalkStat 12 ['''']]\<rparr>)"
    by (subst t) (simp add: invoke_def testBackend_def)
  have c: "WalkStatHandler testBackend testState (Some (2, [''x''])) = (Inl ENOTDIR, testState)"
    by (subst t) simp
  have d: "WalkStatHandler testBackend testState (Some (2, ['''', ''x''])) =
       (Inl ENOTDIR, testState)"
    by (subst t) simp
  from pre a b c d show ?thesis by simp
qed

subsection \<open>Getdents64 and the sign of the count\<close>

lemma neg_count_value:
  fixes c :: "32 word"
  assumes "c <s 0"
  shows "uint (- c) = - sint c"
proof -
  from assms have neg: "sint c < 0" by (simp add: word_sless_alt)
  have lo: "- (2 ^ 31) \<le> sint c" using sint_ge [of c] by simp
  have e: "- c = (word_of_int (- sint c) :: 32 word)" by simp
  have "uint (- c) = uint (word_of_int (- sint c) :: 32 word)"
    by (rule arg_cong [OF e])
  also have "\<dots> = (- sint c) mod 2 ^ LENGTH(32)"
    by (rule uint_word_of_int)
  also have "\<dots> = - sint c" using neg lo by simp
  finally show ?thesis .
qed

text \<open>
  Claim C9. Getdents64 on an open descriptor whose control handle is a directory
  invokes the backend Getdent64 once: for a negative count with seek-to-zero set and
  the negated count, whose unsigned value is the absolute value of the request's
  count; for a non-negative count with seek-to-zero unset and the count unchanged.
  When the control handle is not a directory the handler fails with ENOTDIR and the
  state is as it was.
\<close>

theorem Getdents64_count:
  assumes "fds s DirFD = Some (OFD p)" and "orefs (ofds s p) \<noteq> 0"
  shows "Getdents64Handler B s (Some (DirFD, c)) =
    (if \<not> IsDir (cfds s (controlFD (ofds s p))) then (Inl ENOTDIR, s)
     else if c <s 0
     then (case invoke (C_Getdent64 (oimpl (ofds s p)) (- c) True)
                  (Getdent64 B (oimpl (ofds s p)) (- c) True) s of
             (Inl err, s2) \<Rightarrow> (Inl err, s2)
           | (Inr dirents, s2) \<Rightarrow> (Inr (R_Getdents64 dirents), s2))
     else (case invoke (C_Getdent64 (oimpl (ofds s p)) c False)
                  (Getdent64 B (oimpl (ofds s p)) c False) s of
             (Inl err, s2) \<Rightarrow> (Inl err, s2)
           | (Inr dirents, s2) \<Rightarrow> (Inr (R_Getdents64 dirents), s2)))
    \<and> (c <s 0 \<longrightarrow> uint (- c) = - sint c \<and> 0 < uint (- c))"
proof -
  have v: "uint (- c) = - sint c \<and> 0 < uint (- c)" if "c <s 0"
    using neg_count_value [OF that] that by (simp add: word_sless_alt)
  from assms have "Getdents64Handler B s (Some (DirFD, c)) =
    (if \<not> IsDir (cfds s (controlFD (ofds s p))) then (Inl ENOTDIR, s)
     else if c <s 0
     then (case invoke (C_Getdent64 (oimpl (ofds s p)) (- c) True)
                  (Getdent64 B (oimpl (ofds s p)) (- c) True) s of
             (Inl err, s2) \<Rightarrow> (Inl err, s2)
           | (Inr dirents, s2) \<Rightarrow> (Inr (R_Getdents64 dirents), s2))
     else (case invoke (C_Getdent64 (oimpl (ofds s p)) c False)
                  (Getdent64 B (oimpl (ofds s p)) c False) s of
             (Inl err, s2) \<Rightarrow> (Inl err, s2)
           | (Inr dirents, s2) \<Rightarrow> (Inr (R_Getdents64 dirents), s2)))"
    unfolding Getdents64Handler_def
    by (simp add: LookupOpenFD_Some Let_def deferDecRefOpen_resp DecRefOpen_invoke
        deferDecRefOpen_pair DecRefOpen_restore)
  with v show ?thesis by blast
qed

theorem Getdents64_count_witness:
  "fds testState 5 = Some (OFD 50) \<and> orefs (ofds testState 50) \<noteq> 0
   \<and> fds testState 4 = Some (OFD 40) \<and> orefs (ofds testState 40) \<noteq> 0
   \<and> (- 3 :: 32 word) <s 0
   \<and> Getdents64Handler testBackend testState (Some (5, - 3)) =
       (Inr (R_Getdents64 []),
        testState\<lparr>backend_state := 1, calls := [C_Getdent64 22 3 True]\<rparr>)
   \<and> uint (- (- 3 :: 32 word)) = 3
   \<and> Getdents64Handler testBackend testState (Some (5, 7)) =
       (Inr (R_Getdents64 []),
        testState\<lparr>backend_state := 1, calls := [C_Getdent64 22 7 False]\<rparr>)
   \<and> Getdents64Handler testBackend testState (Some (4, 7)) = (Inl ENOTDIR, testState)"
proof -
  have pre5: "fds testState 5 = Some (OFD 50)" "orefs (ofds testState 50) \<noteq> 0"
    and pre4: "fds testState 4 = Some (OFD 40)" "orefs (ofds testState 40) \<noteq> 0"
    by simp_all
  have n: "(- 3 :: 32 word) <s 0" by (simp add: word_sless_alt)
  note t5 = Getdents64_count [OF pre5, of testBackend]
  note t4 = Getdents64_count [OF pre4, of testBackend]
  have a: "Getdents64Handler testBackend testState (Some (5, - 3)) =
       (Inr (R_Getdents64 []),
        testState\<lparr>backend_state := 1, calls := [C_Getdent64 22 3 True]\<rparr>)"
    by (subst t5 [THEN conjunct1]) (simp add: n IsDir_def invoke_def testBackend_def)
  have b: "uint (- (- 3 :: 32 word)) = 3"
    using t5 [of "- 3", THEN conjunct2, rule_format, OF n] by simp
  have c: "Getdents64Handler testBackend testState (Some (5, 7)) =
       (Inr (R_Getdents64 []),
        testState\<lparr>backend_state := 1, calls := [C_Getdent64 22 7 False]\<rparr>)"
    by (subst t5 [THEN conjunct1])
      (simp add: word_sless_alt IsDir_def invoke_def testBackend_def)
  have d: "Getdents64Handler testBackend testState (Some (4, 7)) = (Inl ENOTDIR, testState)"
    by (subst t4 [THEN conjunct1]) (simp add: IsDir_def)
  from pre5 pre4 n a b c d show ?thesis by simp
qed

subsection \<open>FSync: every descriptor is synced, the first error is returned\<close>

lemma fsyncFD_frame:
  "fds (snd (fsyncFD B s i)) = fds s"
  "oimpl (ofds (snd (fsyncFD B s i)) q) = oimpl (ofds s q)"
  "calls (snd (fsyncFD B s i)) = calls s @ syncCalls s i"
  by (auto simp: fsyncFD_def LookupOpenFD_def invoke_def syncCalls_def
      split: option.splits genericFD.splits prod.splits)

lemma syncCalls_fsyncFD: "syncCalls (snd (fsyncFD B s i)) j = syncCalls s j"
  by (simp add: syncCalls_def fsyncFD_frame split: option.splits genericFD.splits)

lemma fsyncLoop_calls:
  "calls (snd (fsyncLoop B r FDs s)) = calls s @ concat (map (syncCalls s) FDs)"
proof (induction FDs arbitrary: r s)
  case Nil
  then show ?case by simp
next
  case (Cons i FDs)
  obtain err s1 where f: "fsyncFD B s i = (err, s1)" by (cases "fsyncFD B s i")
  from f fsyncFD_frame(3) [of B s i] have c1: "calls s1 = calls s @ syncCalls s i"
    by simp
  from f syncCalls_fsyncFD [of B s i] have m: "syncCalls s1 j = syncCalls s j" for j
    by simp
  from Cons.IH [of _ s1] f c1 m show ?case by simp
qed

lemma fsyncLoop_fst:
  "fst (fsyncLoop B r FDs s) =
     (case r of Some e \<Rightarrow> Some e | None \<Rightarrow> firstError (syncOutcomes B FDs s))"
proof (induction FDs arbitrary: r s)
  case Nil
  then show ?case by (simp add: firstError_def split: option.splits)
next
  case (Cons i FDs)
  obtain err s1 where f: "fsyncFD B s i = (err, s1)" by (cases "fsyncFD B s i")
  with Cons.IH [of _ s1] show ?case
    by (cases err; cases r) (simp_all add: firstError_def)
qed

lemma length_syncOutcomes: "length (syncOutcomes B FDs s) = length FDs"
  by (induction FDs arbitrary: s) (simp_all split: prod.splits)

lemma fsyncFD_open:
  assumes "fds s i = Some (OFD p)"
  shows "fst (fsyncFD B s i) = fst (Sync B (openImpl s i) (backend_state s))"
    and "backend_state (snd (fsyncFD B s i)) = snd (Sync B (openImpl s i) (backend_state s))"
  using assms
  by (simp_all add: fsyncFD_def LookupOpenFD_def invoke_def openImpl_def split: prod.splits)

lemma openImpl_fsyncFD: "openImpl (snd (fsyncFD B s i)) j = openImpl s j"
  by (simp add: openImpl_def fsyncFD_frame split: option.splits genericFD.splits)

lemma syncOutcomes_syncAll:
  assumes "\<forall>fdid \<in> set FDs. \<exists>p. fds s fdid = Some (OFD p)"
  shows "syncOutcomes B FDs s = fst (syncAll B (map (openImpl s) FDs) (backend_state s))"
  using assms
proof (induction FDs arbitrary: s)
  case Nil
  then show ?case by simp
next
  case (Cons i FDs)
  from Cons.prems obtain p where p: "fds s i = Some (OFD p)" by auto
  obtain err s1 where f: "fsyncFD B s i = (err, s1)" by (cases "fsyncFD B s i")
  obtain e b1 where y: "Sync B (openImpl s i) (backend_state s) = (e, b1)"
    by (cases "Sync B (openImpl s i) (backend_state s)")
  from fsyncFD_open [OF p, of B] f y have eq: "err = e" "backend_state s1 = b1" by simp_all
  from fsyncFD_frame(1) [of B s i] f have fd: "fds s1 = fds s" by simp
  from openImpl_fsyncFD [of B s i] f have oi: "openImpl s1 j = openImpl s j" for j by simp
  from Cons.prems fd have "\<forall>fdid \<in> set FDs. \<exists>p. fds s1 fdid = Some (OFD p)" by simp
  from Cons.IH [OF this] f y eq oi show ?case by (simp split: prod.splits)
qed

lemma fsyncLoop_backend:
  assumes "\<forall>fdid \<in> set FDs. \<exists>p. fds s fdid = Some (OFD p)"
  shows "backend_state (snd (fsyncLoop B r FDs s)) =
           snd (syncAll B (map (openImpl s) FDs) (backend_state s))"
  using assms
proof (induction FDs arbitrary: r s)
  case Nil
  then show ?case by simp
next
  case (Cons i FDs)
  from Cons.prems obtain p where p: "fds s i = Some (OFD p)" by auto
  obtain err s1 where f: "fsyncFD B s i = (err, s1)" by (cases "fsyncFD B s i")
  obtain e b1 where y: "Sync B (openImpl s i) (backend_state s) = (e, b1)"
    by (cases "Sync B (openImpl s i) (backend_state s)")
  from fsyncFD_open [OF p, of B] f y have eq: "err = e" "backend_state s1 = b1" by simp_all
  from fsyncFD_frame(1) [of B s i] f have fd: "fds s1 = fds s" by simp
  from openImpl_fsyncFD [of B s i] f have oi: "openImpl s1 j = openImpl s j" for j by simp
  from Cons.prems fd have "\<forall>fdid \<in> set FDs. \<exists>p. fds s1 fdid = Some (OFD p)" by simp
  from Cons.IH [OF this] f y eq oi show ?case by (simp split: prod.splits)
qed

lemma fsyncFD_rest:
  "(snd (fsyncFD B s i))\<lparr>ofds := ofds s, backend_state := backend_state s, calls := calls s\<rparr> = s"
  "(ofds (snd (fsyncFD B s i)) q)\<lparr>orefs := orefs (ofds s q)\<rparr> = ofds s q"
  by (auto simp: fsyncFD_def LookupOpenFD_def invoke_def
      split: option.splits genericFD.splits prod.splits)

lemma fsyncLoop_rest:
  "(snd (fsyncLoop B r FDs s))\<lparr>ofds := ofds s, backend_state := backend_state s,
      calls := calls s\<rparr> = s
   \<and> (\<forall>q. (ofds (snd (fsyncLoop B r FDs s)) q)\<lparr>orefs := orefs (ofds s q)\<rparr> = ofds s q)"
proof (induction FDs arbitrary: r s)
  case Nil
  then show ?case by simp
next
  case (Cons i FDs)
  obtain err s1 where f: "fsyncFD B s i = (err, s1)" by (cases "fsyncFD B s i")
  let ?r = "if err \<noteq> None \<and> r = None then err else r"
  let ?t = "snd (fsyncLoop B ?r FDs s1)"
  from fsyncFD_rest [where B = B and s = s and i = i] f
  have a: "s1\<lparr>ofds := ofds s, backend_state := backend_state s, calls := calls s\<rparr> = s"
    and b: "(ofds s1 q)\<lparr>orefs := orefs (ofds s q)\<rparr> = ofds s q" for q
    by simp_all
  from Cons.IH [where r = ?r and s = s1]
  have c: "?t\<lparr>ofds := ofds s1, backend_state := backend_state s1, calls := calls s1\<rparr> = s1"
    and d: "(ofds ?t q)\<lparr>orefs := orefs (ofds s1 q)\<rparr> = ofds s1 q" for q
    by simp_all
  have "?t\<lparr>ofds := ofds s, backend_state := backend_state s, calls := calls s\<rparr> =
        (?t\<lparr>ofds := ofds s1, backend_state := backend_state s1, calls := calls s1\<rparr>)
          \<lparr>ofds := ofds s, backend_state := backend_state s, calls := calls s\<rparr>"
    by simp
  also have "\<dots> = s" by (simp only: c a)
  finally have e: "?t\<lparr>ofds := ofds s, backend_state := backend_state s, calls := calls s\<rparr> = s" .
  have g: "(ofds ?t q)\<lparr>orefs := orefs (ofds s q)\<rparr> = ofds s q" for q
  proof -
    have "(ofds ?t q)\<lparr>orefs := orefs (ofds s q)\<rparr> =
          ((ofds ?t q)\<lparr>orefs := orefs (ofds s1 q)\<rparr>)\<lparr>orefs := orefs (ofds s q)\<rparr>"
      by simp
    also have "\<dots> = ofds s q" by (simp only: d b)
    finally show ?thesis .
  qed
  from e g f show ?case by simp
qed

lemma syncCalls_open:
  assumes "\<forall>fdid \<in> set FDs. \<exists>p. fds s fdid = Some (OFD p)"
  shows "concat (map (syncCalls s) FDs) = map (\<lambda>fdid. C_Sync (openImpl s fdid)) FDs"
  using assms by (induction FDs) (auto simp: syncCalls_def openImpl_def)

lemma length_syncAll: "length (fst (syncAll B impls b)) = length impls"
  by (induction impls arbitrary: b) (simp_all add: split_beta)

text \<open>
  Claim C7. Let every descriptor of the request name an open handle. Then FSync
  invokes the backend Sync on the capability of every descriptor of the list, in the
  order of the list, each invocation made in the backend state that the previous one
  left and whatever the previous ones returned: the handler's answer, the backend's
  state afterwards and the record of invocations are those of \<open>syncAll\<close>, which is
  written from the backend's Sync alone. The handler returns the first error that a
  Sync returned, that very error, and succeeds when no Sync failed. Without the
  assumption the loop still runs through the whole list: there is one outcome per
  descriptor, the first error among the outcomes is returned, and Sync is invoked on
  every descriptor that names an open handle. Apart from the backend's state, the
  record of invocations and the reference counts of open handles, the handler leaves
  the server state as it was.
\<close>

theorem FSync_all_first_error:
  "((\<forall>fdid \<in> set FDs. \<exists>p. fds s fdid = Some (OFD p)) \<longrightarrow>
      fst (FSyncHandler B s (Some FDs)) =
        (case firstError (fst (syncAll B (map (openImpl s) FDs) (backend_state s))) of
           None \<Rightarrow> Inr R_None
         | Some e \<Rightarrow> Inl e)
      \<and> backend_state (snd (FSyncHandler B s (Some FDs))) =
          snd (syncAll B (map (openImpl s) FDs) (backend_state s))
      \<and> calls (snd (FSyncHandler B s (Some FDs))) =
          calls s @ map (\<lambda>fdid. C_Sync (openImpl s fdid)) FDs
      \<and> length (fst (syncAll B (map (openImpl s) FDs) (backend_state s))) = length FDs)
   \<and> fst (FSyncHandler B s (Some FDs)) =
       (case firstError (syncOutcomes B FDs s) of None \<Rightarrow> Inr R_None | Some e \<Rightarrow> Inl e)
   \<and> length (syncOutcomes B FDs s) = length FDs
   \<and> calls (snd (FSyncHandler B s (Some FDs))) = calls s @ concat (map (syncCalls s) FDs)
   \<and> (\<forall>fdid \<in> set FDs. \<forall>p. fds s fdid = Some (OFD p) \<longrightarrow>
         C_Sync (oimpl (ofds s p)) \<in> set (calls (snd (FSyncHandler B s (Some FDs)))))
   \<and> (snd (FSyncHandler B s (Some FDs)))
         \<lparr>ofds := ofds s, backend_state := backend_state s, calls := calls s\<rparr> = s
   \<and> (\<forall>q. (ofds (snd (FSyncHandler B s (Some FDs))) q)\<lparr>orefs := orefs (ofds s q)\<rparr>
           = ofds s q)"
proof -
  obtain r s1 where l: "fsyncLoop B None FDs s = (r, s1)" by (cases "fsyncLoop B None FDs s")
  from l fsyncLoop_fst [of B None FDs s] have r: "r = firstError (syncOutcomes B FDs s)"
    by simp
  from l fsyncLoop_calls [of B None FDs s]
  have c: "calls s1 = calls s @ concat (map (syncCalls s) FDs)" by simp
  have m: "C_Sync (oimpl (ofds s p)) \<in> set (calls s1)"
    if "fdid \<in> set FDs" "fds s fdid = Some (OFD p)" for fdid p
  proof -
    from that(2) have "C_Sync (oimpl (ofds s p)) \<in> set (syncCalls s fdid)"
      by (simp add: syncCalls_def)
    with that(1) show ?thesis unfolding c by auto
  qed
  have h: "FSyncHandler B s (Some FDs) =
      ((case r of None \<Rightarrow> Inr R_None | Some e \<Rightarrow> Inl e), s1)"
    using l by (simp add: FSyncHandler_def split: option.splits)
  have general: "fst (FSyncHandler B s (Some FDs)) =
       (case firstError (syncOutcomes B FDs s) of None \<Rightarrow> Inr R_None | Some e \<Rightarrow> Inl e)
   \<and> length (syncOutcomes B FDs s) = length FDs
   \<and> calls (snd (FSyncHandler B s (Some FDs))) = calls s @ concat (map (syncCalls s) FDs)
   \<and> (\<forall>fdid \<in> set FDs. \<forall>p. fds s fdid = Some (OFD p) \<longrightarrow>
         C_Sync (oimpl (ofds s p)) \<in> set (calls (snd (FSyncHandler B s (Some FDs)))))
   \<and> (snd (FSyncHandler B s (Some FDs)))
         \<lparr>ofds := ofds s, backend_state := backend_state s, calls := calls s\<rparr> = s
   \<and> (\<forall>q. (ofds (snd (FSyncHandler B s (Some FDs))) q)\<lparr>orefs := orefs (ofds s q)\<rparr>
           = ofds s q)"
    using r c m l fsyncLoop_rest [where B = B and r = None and FDs = FDs and s = s] by (simp add: h length_syncOutcomes)
  have exact: "fst (FSyncHandler B s (Some FDs)) =
        (case firstError (fst (syncAll B (map (openImpl s) FDs) (backend_state s))) of
           None \<Rightarrow> Inr R_None
         | Some e \<Rightarrow> Inl e)
      \<and> backend_state (snd (FSyncHandler B s (Some FDs))) =
          snd (syncAll B (map (openImpl s) FDs) (backend_state s))
      \<and> calls (snd (FSyncHandler B s (Some FDs))) =
          calls s @ map (\<lambda>fdid. C_Sync (openImpl s fdid)) FDs
      \<and> length (fst (syncAll B (map (openImpl s) FDs) (backend_state s))) = length FDs"
    if a: "\<forall>fdid \<in> set FDs. \<exists>p. fds s fdid = Some (OFD p)"
  proof -
    from l fsyncLoop_backend [OF a, of B None]
    have b: "backend_state s1 = snd (syncAll B (map (openImpl s) FDs) (backend_state s))"
      by simp
    from r have r': "r = firstError (fst (syncAll B (map (openImpl s) FDs) (backend_state s)))"
      by (simp only: syncOutcomes_syncAll [OF a])
    from c have c': "calls s1 = calls s @ map (\<lambda>fdid. C_Sync (openImpl s fdid)) FDs"
      by (simp only: syncCalls_open [OF a])
    from b r' c' show ?thesis by (simp add: h length_syncAll)
  qed
  from general exact show ?thesis by blast
qed

theorem FSync_all_first_error_witness:
  "fds testState 4 = Some (OFD 40) \<and> fds testState 5 = Some (OFD 50)
   \<and> fds testState 6 = Some (OFD 60)
   \<and> map (openImpl testState) [4, 5, 6] = [21, 22, 23]
   \<and> syncAll testBackend [21, 22, 23] 0 = ([None, Some EIO, None], 3)
   \<and> fst (FSyncHandler testBackend testState (Some [4, 5, 6])) = Inl EIO
   \<and> backend_state (snd (FSyncHandler testBackend testState (Some [4, 5, 6]))) = 3
   \<and> calls (snd (FSyncHandler testBackend testState (Some [4, 5, 6]))) =
       [C_Sync 21, C_Sync 22, C_Sync 23]
   \<and> syncAll (testBackend\<lparr>Sync := \<lambda>i b. (if i = 21 then None else Some (EOTHER i), Suc b)\<rparr>)
        [21, 22, 23] 0 = ([None, Some (EOTHER 22), Some (EOTHER 23)], 3)
   \<and> fst (FSyncHandler
             (testBackend\<lparr>Sync := \<lambda>i b. (if i = 21 then None else Some (EOTHER i), Suc b)\<rparr>)
             testState (Some [4, 5, 6])) = Inl (EOTHER 22)
   \<and> calls (snd (FSyncHandler
             (testBackend\<lparr>Sync := \<lambda>i b. (if i = 21 then None else Some (EOTHER i), Suc b)\<rparr>)
             testState (Some [4, 5, 6]))) = [C_Sync 21, C_Sync 22, C_Sync 23]"
proof -
  let ?B = "testBackend\<lparr>Sync := \<lambda>i b. (if i = 21 then None else Some (EOTHER i), Suc b)\<rparr>"
  have all: "\<forall>fdid \<in> set [4, 5, 6]. \<exists>p. fds testState fdid = Some (OFD p)" by simp
  have im: "map (openImpl testState) [4, 5, 6] = [21, 22, 23]"
    by (simp add: openImpl_def)
  have sa: "syncAll testBackend [21, 22, 23] 0 = ([None, Some EIO, None], 3)"
    by (simp add: testBackend_def)
  have sb: "syncAll ?B [21, 22, 23] 0 = ([None, Some (EOTHER 22), Some (EOTHER 23)], 3)"
    by simp
  note t = FSync_all_first_error [where s = testState and FDs = "[4, 5, 6]",
      THEN conjunct1, THEN mp, OF all, unfolded im test_flags]
  have a: "fst (FSyncHandler testBackend testState (Some [4, 5, 6])) = Inl EIO"
    using t [of testBackend, THEN conjunct1] unfolding sa by (simp add: firstError_def)
  have b: "backend_state (snd (FSyncHandler testBackend testState (Some [4, 5, 6]))) = 3"
    using t [of testBackend, THEN conjunct2, THEN conjunct1] unfolding sa by simp
  have c: "calls (snd (FSyncHandler testBackend testState (Some [4, 5, 6]))) =
       [C_Sync 21, C_Sync 22, C_Sync 23]"
    using t [of testBackend, THEN conjunct2, THEN conjunct2, THEN conjunct1]
    by (simp add: openImpl_def)
  have d: "fst (FSyncHandler ?B testState (Some [4, 5, 6])) = Inl (EOTHER 22)"
    using t [of ?B, THEN conjunct1] unfolding sb by (simp add: firstError_def)
  have e: "calls (snd (FSyncHandler ?B testState (Some [4, 5, 6]))) =
       [C_Sync 21, C_Sync 22, C_Sync 23]"
    using t [of ?B, THEN conjunct2, THEN conjunct2, THEN conjunct1]
    by (simp add: openImpl_def)
  show ?thesis by (intro conjI) (rule test_fds im sa a b c sb d e)+
qed

subsection \<open>RenameAt: mount roots and renames onto the same place\<close>

lemma LookupControlFD_tree:
  assumes "LookupControlFD s i = Inr (p, s1)"
  shows "fds s i = Some (CFD p)"
    and "s1 = s\<lparr>cfds := (cfds s)(p := (cfds s p)\<lparr>refs := refs (cfds s p) + 1\<rparr>)\<rparr>"
    and "fds s1 = fds s"
    and "parent (cfds s1 x) = parent (cfds s x)"
    and "name (cfds s1 x) = name (cfds s x)"
    and "IsDir (cfds s1 x) = IsDir (cfds s x)"
    and "FilePathLocked s1 x = FilePathLocked s x"
proof -
  from assms show a: "fds s i = Some (CFD p)"
    by (auto simp: LookupControlFD_def split: option.splits genericFD.splits)
  with assms show b: "s1 = s\<lparr>cfds := (cfds s)(p := (cfds s p)\<lparr>refs := refs (cfds s p) + 1\<rparr>)\<rparr>"
    by (simp add: LookupControlFD_def)
  from b show "fds s1 = fds s" by simp
  from b show pa: "parent (cfds s1 x) = parent (cfds s x)" for x by simp
  from b show na: "name (cfds s1 x) = name (cfds s x)" for x by simp
  from b show "IsDir (cfds s1 x) = IsDir (cfds s x)" by (simp add: IsDir_def)
  from pa na show "FilePathLocked s1 x = FilePathLocked s x"
    by (simp add: FilePathLocked_def)
qed

lemma two_lookups_restore:
  assumes "LookupControlFD s i = Inr (r, s1)" and "LookupControlFD s1 j = Inr (d, s2)"
    and "0 < refs (cfds s r)" and "0 < refs (cfds s d)"
  shows "DecRefControl B r (DecRefControl B d s2) = s"
proof -
  note a = LookupControlFD_tree(2) [OF assms(1)]
  note b = LookupControlFD_tree(2) [OF assms(2)]
  show ?thesis
  proof (cases "r = d")
    case True
    with assms(3) show ?thesis
      unfolding b a by (simp add: DecRefControl_def Let_def)
  next
    case False
    with assms(3,4) have "DecRefControl B d s2 = s1"
      unfolding b a by (simp add: DecRefControl_def Let_def fun_upd_idem)
    moreover from assms(3) have "DecRefControl B r s1 = s"
      unfolding a by (simp add: DecRefControl_def Let_def)
    ultimately show ?thesis by simp
  qed
qed

text \<open>
  Claim C3. Let a RenameAt request pass the checks that precede the rename lock: the
  connection is writable, the new name is safe, both descriptors name control handles
  (each with a positive reference count), and the new parent is a directory. If the
  renamed handle has no parent (a mount root) the handler fails with EBUSY. If the new
  name is the handle's name and the path of the new parent is the path of the handle's
  parent, the handler succeeds. In both cases the state returned is the state
  received: the tree of handles is untouched and the backend RenameLocked, like every
  other backend operation, is not invoked.
\<close>

theorem RenameAt_root_and_noop:
  assumes "\<not> readonly s" and "checkSafeName newName = None"
    and "fds s Renamed = Some (CFD r)" and "fds s NewDir = Some (CFD d)"
    and "0 < refs (cfds s r)" and "0 < refs (cfds s d)" and "IsDir (cfds s d)"
  shows "(parent (cfds s r) = None \<longrightarrow>
           RenameAtHandler B s (Some (Renamed, NewDir, newName)) = Some (Inl EBUSY, s))
    \<and> (\<forall>q pp. parent (cfds s r) = Some q \<longrightarrow> newName = name (cfds s r) \<longrightarrow>
           FilePathLocked s q = Some pp \<longrightarrow> FilePathLocked s d = Some pp \<longrightarrow>
           RenameAtHandler B s (Some (Renamed, NewDir, newName)) = Some (Inr R_None, s))"
proof -
  obtain s1 where l1: "LookupControlFD s Renamed = Inr (r, s1)"
    using assms(3) by (simp add: LookupControlFD_Some)
  note t1 = LookupControlFD_tree [OF l1]
  from assms(4) have "fds s1 NewDir = Some (CFD d)" by (simp only: t1(3))
  then obtain s2 where l2: "LookupControlFD s1 NewDir = Inr (d, s2)"
    by (simp add: LookupControlFD_Some)
  note t2 = LookupControlFD_tree [OF l2]
  have restored: "DecRefControl B r (DecRefControl B d s2) = s"
    using two_lookups_restore [OF l1 l2 assms(5,6)] .
  have dir: "IsDir (cfds s2 d)" using assms(7) by (simp only: t1(6) t2(6))
  have pa: "parent (cfds s2 r) = parent (cfds s r)" by (simp only: t1(4) t2(4))
  have na: "name (cfds s2 r) = name (cfds s r)" by (simp only: t1(5) t2(5))
  have fp: "FilePathLocked s2 x = FilePathLocked s x" for x by (simp only: t1(7) t2(7))
  have busy: "RenameAtHandler B s (Some (Renamed, NewDir, newName)) = Some (Inl EBUSY, s)"
    if "parent (cfds s r) = None"
    using that assms(1,2) l1 l2 dir pa restored
    by (simp add: RenameAtHandler_def deferDecRefControl_pair)
  have noop: "RenameAtHandler B s (Some (Renamed, NewDir, newName)) = Some (Inr R_None, s)"
    if "parent (cfds s r) = Some q" "newName = name (cfds s r)"
      "FilePathLocked s q = Some pp" "FilePathLocked s d = Some pp" for q pp
    using that assms(1,2) l1 l2 dir pa na fp restored
    by (simp add: RenameAtHandler_def deferDecRefControl_pair)
  from busy noop show ?thesis by blast
qed

lemma test_paths:
  "FilePathLocked testState 10 = Some ''/srv''"
  by (simp add: FilePathLocked_def parentWalk.simps)

theorem RenameAt_root_and_noop_witness:
  "\<not> readonly testState \<and> checkSafeName ''a'' = None
   \<and> fds testState 1 = Some (CFD 10) \<and> fds testState 2 = Some (CFD 20)
   \<and> fds testState 3 = Some (CFD 30)
   \<and> 0 < refs (cfds testState 10) \<and> 0 < refs (cfds testState 20)
   \<and> 0 < refs (cfds testState 30)
   \<and> IsDir (cfds testState 10) \<and> IsDir (cfds testState 30)
   \<and> parent (cfds testState 10) = None
   \<and> RenameAtHandler testBackend testState (Some (1, 3, ''a'')) = Some (Inl EBUSY, testState)
   \<and> parent (cfds testState 20) = Some 10 \<and> name (cfds testState 20) = ''a''
   \<and> FilePathLocked testState 10 = Some ''/srv''
   \<and> RenameAtHandler testBackend testState (Some (2, 1, ''a'')) = Some (Inr R_None, testState)"
proof -
  have nro: "\<not> readonly testState" by simp
  have safe: "checkSafeName ''a'' = None" by (simp add: checkSafeName_def)
  have f1: "fds testState 1 = Some (CFD 10)" and f2: "fds testState 2 = Some (CFD 20)"
    and f3: "fds testState 3 = Some (CFD 30)" by simp_all
  have r1: "0 < refs (cfds testState 10)" and r2: "0 < refs (cfds testState 20)"
    and r3: "0 < refs (cfds testState 30)" by simp_all
  have d1: "IsDir (cfds testState 10)" and d3: "IsDir (cfds testState 30)"
    by (simp_all add: IsDir_def)
  have root: "parent (cfds testState 10) = None" by simp
  have child: "parent (cfds testState 20) = Some 10" "''a'' = name (cfds testState 20)"
    by simp_all
  have nm: "name (cfds testState 20) = ''a''" by simp
  note p = test_paths
  from RenameAt_root_and_noop [OF nro safe f1 f3 r1 r3 d3, of testBackend,
      THEN conjunct1, rule_format, OF root]
  have a: "RenameAtHandler testBackend testState (Some (1, 3, ''a'')) =
      Some (Inl EBUSY, testState)" .
  from RenameAt_root_and_noop [OF nro safe f2 f1 r2 r1 d1, of testBackend,
      THEN conjunct2, rule_format, OF child p p]
  have b: "RenameAtHandler testBackend testState (Some (2, 1, ''a'')) =
      Some (Inr R_None, testState)" .
  from nro safe f1 f2 f3 r1 r2 r3 d1 d3 root child(1) nm p a b show ?thesis by simp
qed

text \<open>
  For comparison, a rename that is neither of the two cases: on the concrete server
  the file \<open>a\<close> is moved into the directory \<open>d\<close> under the name \<open>b\<close>. RenameLocked is
  invoked once and the handle is re-linked under its new parent.
\<close>

lemma RenameAt_example:
  "\<exists>s'. RenameAtHandler testBackend testState (Some (2, 3, ''b'')) = Some (Inr R_None, s')
     \<and> calls s' = [C_RenameLocked 12 13 ''b'']
     \<and> name (cfds s' 20) = ''b'' \<and> parent (cfds s' 20) = Some 30
     \<and> children (cfds s' 10) = [30] \<and> children (cfds s' 30) = [20]
     \<and> refs (cfds s' 20) = 1 \<and> refs (cfds s' 30) = 1
     \<and> FilePathLocked s' 20 = Some ''/srv/d/b''"
  by (simp add: RenameAtHandler_def checkSafeName_def LookupControlFD_def IsDir_def
      FilePathLocked_def parentWalk.simps invoke_def testBackend_def
      deferDecRefControl_def DecRefControl_def Let_def renameUnderRoot_def
      strings_HasPrefix_def fspath_Parse_def clearParentLocked_def setParentLocked_def)

subsection \<open>Lookups that are not released\<close>

text \<open>
  \<open>fsyncFD\<close>, \<open>PWriteHandler\<close> and the target lookup of \<open>LinkAtHandler\<close> acquire a
  reference and have no \<^verbatim>\<open>DecRef\<close>: whenever the lookup succeeds, the handle's
  reference count after the call is one more than before, on the success path and on
  the error paths alike.
\<close>

lemma fsyncFD_keeps_reference:
  assumes "fds s fdid = Some (OFD p)"
  shows "orefs (ofds (snd (fsyncFD B s fdid)) p) = orefs (ofds s p) + 1"
  using assms
  by (simp add: fsyncFD_def LookupOpenFD_def invoke_def split: prod.splits)

lemma PWrite_keeps_reference:
  assumes "\<not> readonly s" and "fds s FD = Some (OFD p)"
  shows "orefs (ofds (snd (PWriteHandler B s (Some (FD, Offset, Buf)))) p) =
           orefs (ofds s p) + 1"
  using assms
  by (simp add: PWriteHandler_def LookupOpenFD_def invoke_def split: prod.splits sum.splits)

text \<open>
  Claim C2 asks that every descriptor lookup of a handler be paired with one release
  before the handler returns. The three lookups named above are not. On the concrete
  server every handle starts with the reference count 1 that the descriptor table
  holds. FSync of the descriptor 4 succeeds and leaves the count of its open handle at
  2. PWrite to the descriptor 4 succeeds and leaves the count at 2; PWrite to the
  descriptor 5, which is not writable, fails with EBADF and leaves the count of that
  handle at 2. LinkAt with the directory 1 and the target 2 succeeds, releases the
  directory (count 1) and leaves the count of the target at 2. FAllocate, which defers
  the release, leaves the count of the descriptor 4 at 1.
\<close>

theorem lookups_without_release:
  "orefs (ofds testState 40) = 1 \<and> orefs (ofds testState 50) = 1
   \<and> refs (cfds testState 10) = 1 \<and> refs (cfds testState 20) = 1
   \<and> fst (FSyncHandler testBackend testState (Some [4])) = Inr R_None
   \<and> orefs (ofds (snd (FSyncHandler testBackend testState (Some [4]))) 40) = 2
   \<and> fst (PWriteHandler testBackend testState (Some (4, 0, [1, 2, 3]))) = Inr (R_PWrite 3)
   \<and> orefs (ofds (snd (PWriteHandler testBackend testState (Some (4, 0, [1, 2, 3])))) 40) = 2
   \<and> fst (PWriteHandler testBackend testState (Some (5, 0, [1, 2, 3]))) = Inl EBADF
   \<and> orefs (ofds (snd (PWriteHandler testBackend testState (Some (5, 0, [1, 2, 3])))) 50) = 2
   \<and> fst (LinkAtHandler testBackend testState (Some (1, 2, ''l''))) = Inr (R_LinkAt (8, 0))
   \<and> refs (cfds (snd (LinkAtHandler testBackend testState (Some (1, 2, ''l'')))) 10) = 1
   \<and> refs (cfds (snd (LinkAtHandler testBackend testState (Some (1, 2, ''l'')))) 20) = 2
   \<and> fst (FAllocateHandler testBackend testState (Some (4, 0, 0, 8))) = Inr R_None
   \<and> orefs (ofds (snd (FAllocateHandler testBackend testState (Some (4, 0, 0, 8)))) 40) = 1"
proof -
  have fsync: "fst (FSyncHandler testBackend testState (Some [4])) = Inr R_None"
    "orefs (ofds (snd (FSyncHandler testBackend testState (Some [4]))) 40) = 2"
    by (simp_all add: FSyncHandler_def fsyncFD_def LookupOpenFD_def invoke_def testBackend_def)
  have pwrite: "fst (PWriteHandler testBackend testState (Some (4, 0, [1, 2, 3]))) = Inr (R_PWrite 3)"
    "orefs (ofds (snd (PWriteHandler testBackend testState (Some (4, 0, [1, 2, 3])))) 40) = 2"
    "fst (PWriteHandler testBackend testState (Some (5, 0, [1, 2, 3]))) = Inl EBADF"
    "orefs (ofds (snd (PWriteHandler testBackend testState (Some (5, 0, [1, 2, 3])))) 50) = 2"
    by (simp_all add: PWriteHandler_def LookupOpenFD_def invoke_def testBackend_def)
  have link: "fst (LinkAtHandler testBackend testState (Some (1, 2, ''l''))) = Inr (R_LinkAt (8, 0))"
    "refs (cfds (snd (LinkAtHandler testBackend testState (Some (1, 2, ''l'')))) 10) = 1"
    "refs (cfds (snd (LinkAtHandler testBackend testState (Some (1, 2, ''l'')))) 20) = 2"
    by (simp_all add: LinkAtHandler_def checkSafeName_def LookupControlFD_def IsDir_def
        invoke_def testBackend_def deferDecRefControl_def DecRefControl_def Let_def)
  have falloc: "fst (FAllocateHandler testBackend testState (Some (4, 0, 0, 8))) = Inr R_None"
    "orefs (ofds (snd (FAllocateHandler testBackend testState (Some (4, 0, 0, 8)))) 40) = 1"
    by (simp_all add: FAllocateHandler_def LookupOpenFD_def invoke_def testBackend_def
        deferDecRefOpen_def DecRefOpen_def ret0_def Let_def)
  from fsync pwrite link falloc show ?thesis by simp
qed

end
